theory Spec2Isabelle
  imports Complex_Main "HOL-Library.AList" "HOL-Library.Char_ord" "HOL-Library.List_Lexorder"
    "HOL-Library.Sublist"
begin

section \<open>The cross-tabulation engine of \<^verbatim>\<open>core/crosstab_engine.py\<close>\<close>

text \<open>
  A shallow embedding of \<^verbatim>\<open>CrosstabEngine\<close>, \<^verbatim>\<open>CrosstabGenerator\<close> and
  \<^verbatim>\<open>BannerTableGenerator\<close>. The engine is written over pandas, numpy and scipy; the
  operations of those libraries that the code calls are given as HOL functions of their own
  below, each with the library call it stands for.
\<close>

subsection \<open>Numbers\<close>

text \<open>
  A float is a real number or one of the three special values that numpy arithmetic
  produces instead of raising: \<open>PInf\<close> and \<open>NInf\<close> for the two infinities and \<open>NaN\<close>.
  Finite arithmetic is exact: rounding, overflow and the sign of zero are not represented.
\<close>

datatype npfloat = Fin real | PInf | NInf | NaN

fun np_neg :: "npfloat \<Rightarrow> npfloat" where
  "np_neg (Fin a) = Fin (- a)"
| "np_neg PInf = NInf"
| "np_neg NInf = PInf"
| "np_neg NaN = NaN"

fun np_add :: "npfloat \<Rightarrow> npfloat \<Rightarrow> npfloat" where
  "np_add (Fin a) (Fin b) = Fin (a + b)"
| "np_add NaN _ = NaN"
| "np_add _ NaN = NaN"
| "np_add PInf NInf = NaN"
| "np_add NInf PInf = NaN"
| "np_add PInf _ = PInf"
| "np_add _ PInf = PInf"
| "np_add NInf _ = NInf"
| "np_add _ NInf = NInf"

definition np_sub :: "npfloat \<Rightarrow> npfloat \<Rightarrow> npfloat" where
  "np_sub a b = np_add a (np_neg b)"

fun np_mul :: "npfloat \<Rightarrow> npfloat \<Rightarrow> npfloat" where
  "np_mul (Fin a) (Fin b) = Fin (a * b)"
| "np_mul NaN _ = NaN"
| "np_mul _ NaN = NaN"
| "np_mul PInf (Fin b) = (if b = 0 then NaN else if 0 < b then PInf else NInf)"
| "np_mul NInf (Fin b) = (if b = 0 then NaN else if 0 < b then NInf else PInf)"
| "np_mul (Fin a) PInf = (if a = 0 then NaN else if 0 < a then PInf else NInf)"
| "np_mul (Fin a) NInf = (if a = 0 then NaN else if 0 < a then NInf else PInf)"
| "np_mul PInf PInf = PInf"
| "np_mul NInf NInf = PInf"
| "np_mul PInf NInf = NInf"
| "np_mul NInf PInf = NInf"

text \<open>
  Division never raises: a finite non-zero numerator over zero is an infinity, zero over
  zero is \<open>NaN\<close> (numpy only warns).
\<close>

fun np_div :: "npfloat \<Rightarrow> npfloat \<Rightarrow> npfloat" where
  "np_div (Fin a) (Fin b) =
     (if b \<noteq> 0 then Fin (a / b) else if a = 0 then NaN else if 0 < a then PInf else NInf)"
| "np_div NaN _ = NaN"
| "np_div _ NaN = NaN"
| "np_div (Fin a) PInf = Fin 0"
| "np_div (Fin a) NInf = Fin 0"
| "np_div PInf (Fin b) = (if 0 \<le> b then PInf else NInf)"
| "np_div NInf (Fin b) = (if 0 \<le> b then NInf else PInf)"
| "np_div PInf PInf = NaN"
| "np_div PInf NInf = NaN"
| "np_div NInf PInf = NaN"
| "np_div NInf NInf = NaN"

fun np_sqrt :: "npfloat \<Rightarrow> npfloat" where
  "np_sqrt (Fin a) = (if 0 \<le> a then Fin (sqrt a) else NaN)"
| "np_sqrt PInf = PInf"
| "np_sqrt NInf = NaN"
| "np_sqrt NaN = NaN"

fun np_sum :: "npfloat list \<Rightarrow> npfloat" where
  "np_sum [] = Fin 0"
| "np_sum (x # xs) = np_add x (np_sum xs)"

text \<open>
  A number that scipy computes from a distribution (a p-value, a test statistic) is kept
  as the call that produces it: the name of the routine and its numeric arguments.
\<close>

datatype libfloat = Value npfloat | Scipy string "npfloat list list"

subsection \<open>Errors\<close>

text \<open>
  Every \<^verbatim>\<open>raise\<close> of the code and of the library calls it makes is a value. The code
  raises Python's \<^verbatim>\<open>ValueError\<close> for each of its validation failures (the repository
  declares no exception class of its own); the string is the message.
  \<open>KeyError\<close> is what pandas raises for a column name the frame does not have, and
  \<open>PydanticValidationError\<close> what the constructor of a result model raises for a field it
  cannot validate. \<open>OutsideModel\<close> marks an input on which the outcome is decided inside
  a library in a way this development does not describe (frames whose labels differ as
  operands of one operation; a table with no cell or with a negative cell given to the
  Fisher test): the model stops there, and no statement below is about such an input.
\<close>

datatype error =
    ValueError string
  | KeyError string
  | PydanticValidationError string
  | OutsideModel string

subsection \<open>Data frames\<close>

text \<open>
  A dataset is its columns in order, each a name and its values, \<open>None\<close> being the missing
  marker. The columns of one dataset have the same length and distinct names.
\<close>

type_synonym 'v series = "'v option list"
type_synonym 'v dataset = "(string \<times> 'v series) list"

definition df_columns :: "'v dataset \<Rightarrow> string list" where
  "df_columns data = map fst data"

definition df_empty :: "'v dataset \<Rightarrow> bool" where
  "df_empty data = (case data of [] \<Rightarrow> True | (_, col) # _ \<Rightarrow> col = [])"

definition isna_all :: "'v series \<Rightarrow> bool" where
  "isna_all col = list_all (\<lambda>x. x = None) col"

text \<open>
  A table is a frame: row labels, column labels and the cells row by row.

  The code names the margins \<^verbatim>\<open>'All'\<close> and finds them again by comparing labels with that
  string. A value of a variable that \<^verbatim>\<open>create_crosstab\<close> or \<^verbatim>\<open>generate\<close> tabulates is
  therefore either the string \<^verbatim>\<open>'All'\<close> itself (\<open>All_label\<close>) or any other value
  (\<open>Cat v\<close>); the labels of a table are such values, the margin label being \<open>All_label\<close>.
\<close>

datatype 'v label = Cat 'v | All_label

record ('l, 'a) frame =
  index :: "'l list"
  columns :: "'l list"
  cells :: "'a list list"

definition shape :: "('l, 'a) frame \<Rightarrow> nat \<times> nat" where
  "shape t = (length (index t), length (columns t))"

text \<open>\<^verbatim>\<open>table.iloc[:-1, :-1]\<close>: the frame without its last row and last column.\<close>

definition iloc_no_margins :: "('l, 'a) frame \<Rightarrow> ('l, 'a) frame" where
  "iloc_no_margins t =
     \<lparr>index = butlast (index t), columns = butlast (columns t),
      cells = map butlast (butlast (cells t))\<rparr>"

definition row_totals :: "('l, real) frame \<Rightarrow> real list" where
  "row_totals t = map sum_list (cells t)"

definition col_totals :: "('l, real) frame \<Rightarrow> real list" where
  "col_totals t = map (\<lambda>j. sum_list (map (\<lambda>row. row ! j) (cells t))) [0..<length (columns t)]"

definition grand_total :: "('l, real) frame \<Rightarrow> real" where
  "grand_total t = sum_list (map sum_list (cells t))"

subsection \<open>\<^verbatim>\<open>pd.crosstab\<close>\<close>

text \<open>
  \<^verbatim>\<open>pd.crosstab(rows, cols)\<close> drops every row of the data in which one of the two values
  is missing, takes as categories the sorted distinct values that remain, and counts. When
  no row remains the result is the frame with no row and no column.
\<close>

fun complete_pairs :: "'v series \<Rightarrow> 'v series \<Rightarrow> ('v \<times> 'v) list" where
  "complete_pairs (Some r # rs) (Some c # cs) = (r, c) # complete_pairs rs cs"
| "complete_pairs (_ # rs) (_ # cs) = complete_pairs rs cs"
| "complete_pairs _ _ = []"

definition categories :: "'v::linorder list \<Rightarrow> 'v list" where
  "categories xs = sort (remdups xs)"

definition cell_count :: "('v \<times> 'v) list \<Rightarrow> 'v \<Rightarrow> 'v \<Rightarrow> real" where
  "cell_count pairs r c = real (length (filter (\<lambda>p. p = (r, c)) pairs))"

definition row_margin :: "('v \<times> 'v) list \<Rightarrow> 'v \<Rightarrow> real" where
  "row_margin pairs r = real (length (filter (\<lambda>p. fst p = r) pairs))"

definition col_margin :: "('v \<times> 'v) list \<Rightarrow> 'v \<Rightarrow> real" where
  "col_margin pairs c = real (length (filter (\<lambda>p. snd p = c) pairs))"

definition pd_crosstab :: "'v::linorder series \<Rightarrow> 'v series \<Rightarrow> ('v, real) frame" where
  "pd_crosstab rs cs =
     (let pairs = complete_pairs rs cs;
          rcats = categories (map fst pairs);
          ccats = categories (map snd pairs)
      in \<lparr>index = rcats, columns = ccats,
          cells = map (\<lambda>r. map (cell_count pairs r) ccats) rcats\<rparr>)"

text \<open>
  \<^verbatim>\<open>pd.crosstab(rows, cols, margins=True, margins_name='All')\<close>. When no row of the data
  has both values the result is the frame with no row and no column, without margins.
  Otherwise a category that is the string \<^verbatim>\<open>'All'\<close> is refused with a \<^verbatim>\<open>ValueError\<close>; else
  the \<^verbatim>\<open>'All'\<close> column and row are appended, which pandas computes from the data: the
  number of remaining rows in each row category, in each column category, and in all.
\<close>

fun plain_pairs :: "('v label \<times> 'v label) list \<Rightarrow> ('v \<times> 'v) list" where
  "plain_pairs [] = []"
| "plain_pairs ((Cat r, Cat c) # ps) = (r, c) # plain_pairs ps"
| "plain_pairs (_ # ps) = plain_pairs ps"

definition dquote :: string where
  "dquote = [CHR 0x22]"

definition conflicting_name :: string where
  "conflicting_name = ''Conflicting name '' @ dquote @ ''All'' @ dquote @ '' in margins''"

definition pd_crosstab_margins ::
  "'v::linorder label series \<Rightarrow> 'v label series \<Rightarrow> error + ('v label, real) frame" where
  "pd_crosstab_margins rs cs =
     (let labelled = complete_pairs rs cs;
          pairs = plain_pairs labelled;
          rcats = categories (map fst pairs);
          ccats = categories (map snd pairs)
      in if labelled = [] then Inr \<lparr>index = [], columns = [], cells = []\<rparr>
         else if All_label \<in> set (map fst labelled) \<or> All_label \<in> set (map snd labelled) then
           Inl (ValueError conflicting_name)
         else
           Inr \<lparr>index = map Cat rcats @ [All_label],
                columns = map Cat ccats @ [All_label],
                cells = map (\<lambda>r. map (cell_count pairs r) ccats @ [row_margin pairs r]) rcats
                        @ [map (col_margin pairs) ccats @ [real (length pairs)]]\<rparr>)"

subsection \<open>\<^verbatim>\<open>scipy.stats.chi2_contingency\<close>\<close>

text \<open>
  The expected frequencies under independence: the outer product of the row totals and
  the column totals over the grand total. \<^verbatim>\<open>chi2_contingency\<close> refuses a table with a
  negative cell, an empty table, and a table with a zero expected frequency (its message
  for the last goes on with the position of such a cell, left out here); it applies
  Yates' correction when there is one degree of freedom. The statistic is the sum of
  \<open>(observed - expected)\<^sup>2 / expected\<close> over the cells. The p-value is the upper tail of
  the chi-square distribution, kept as the call. The result is the statistic, the
  p-value, the degrees of freedom and the expected frequencies.
\<close>

definition expected_freq :: "('l, real) frame \<Rightarrow> npfloat list list" where
  "expected_freq t =
     map (\<lambda>r. map (\<lambda>c. np_div (Fin (r * c)) (Fin (grand_total t))) (col_totals t))
       (row_totals t)"

fun yates :: "real \<Rightarrow> npfloat \<Rightarrow> npfloat" where
  "yates ob (Fin ex) = Fin (ob + min (1 / 2) \<bar>ex - ob\<bar> * sgn (ex - ob))"
| "yates ob PInf = Fin (ob + 1 / 2)"
| "yates ob NInf = Fin (ob - 1 / 2)"
| "yates ob NaN = NaN"

definition pearson_term :: "npfloat \<Rightarrow> npfloat \<Rightarrow> npfloat" where
  "pearson_term ob ex = np_div (np_mul (np_sub ob ex) (np_sub ob ex)) ex"

definition chi2_contingency ::
  "('l, real) frame \<Rightarrow> error + (npfloat \<times> libfloat \<times> nat \<times> npfloat list list)" where
  "chi2_contingency t =
     (let nr = fst (shape t); nc = snd (shape t) in
      if list_ex (list_ex (\<lambda>x. x < 0)) (cells t) then
        Inl (ValueError ''All values in `observed` must be nonnegative.'')
      else if nr * nc = 0 then
        Inl (ValueError ''No data; `observed` has size 0.'')
      else
        let expected = expected_freq t in
        if list_ex (list_ex (\<lambda>e. e = Fin 0)) expected then
          Inl (ValueError
            ''The internally computed table of expected frequencies has a zero element'')
        else
          let dof = (nr - 1) * (nc - 1) in
          if dof = 0 then Inr (Fin 0, Value (Fin 1), dof, expected)
          else
            let observed =
                  (if dof = 1 then map2 (map2 yates) (cells t) expected
                   else map (map Fin) (cells t));
                chi2 = np_sum (concat (map2 (map2 pearson_term) observed expected))
            in Inr (chi2, Scipy ''chi2.sf'' [[chi2, Fin (real dof)]], dof, expected))"

subsection \<open>\<^verbatim>\<open>CrosstabResult\<close> and \<^verbatim>\<open>CrosstabStatistics\<close>\<close>

record CrosstabStatistics =
  chi_square :: npfloat
  p_value :: libfloat
  degrees_of_freedom :: real
  cramers_v :: npfloat
  expected_values :: "npfloat list list"
  residuals :: "npfloat list list"

record 'v CrosstabResult =
  table :: "('v label, real) frame"
  row_percentages :: "('v label, npfloat) frame option"
  column_percentages :: "('v label, npfloat) frame option"
  total_percentages :: "('v label, npfloat) frame option"
  statistics :: "CrosstabStatistics option"

subsection \<open>\<^verbatim>\<open>CrosstabEngine.create_crosstab\<close>\<close>

text \<open>
  The cells of a table are real numbers, so \<^verbatim>\<open>table.astype(float)\<close> changes nothing.

  The percentage views. The code fills a fresh frame through \<^verbatim>\<open>.loc\<close> assignments; the
  table it works on is the one \<^verbatim>\<open>pd.crosstab\<close> returned with margins, whose last row and
  last column are the only ones labelled \<^verbatim>\<open>'All'\<close>, so every cell is assigned exactly once.

  One line (a row for the row view, a column for the column view): the divisor is the sum
  of the cells not labelled \<^verbatim>\<open>'All'\<close>; when it is positive those cells become percentages
  of it and the \<^verbatim>\<open>'All'\<close> cell becomes 100.0, otherwise the whole line becomes 0.0.
\<close>

definition percentage_line :: "'v label list \<Rightarrow> real list \<Rightarrow> npfloat list" where
  "percentage_line labels line =
     (let total = sum_list (map snd (filter (\<lambda>(l, x). l \<noteq> All_label) (zip labels line)))
      in if 0 < total then
           map (\<lambda>(l, x). if l \<noteq> All_label then Fin (x / total * 100) else Fin 100) (zip labels line)
         else map (\<lambda>_. Fin 0) line)"

definition engine_row_percentages :: "('v label, real) frame \<Rightarrow> ('v label, npfloat) frame" where
  "engine_row_percentages t =
     \<lparr>index = index t, columns = columns t,
      cells = map (percentage_line (columns t)) (cells t)\<rparr>"

definition engine_column_percentages ::
  "('v label, real) frame \<Rightarrow> ('v label, npfloat) frame" where
  "engine_column_percentages t =
     \<lparr>index = index t, columns = columns t,
      cells = transpose (map (percentage_line (index t)) (transpose (cells t)))\<rparr>"

definition engine_total_percentages ::
  "('v label, real) frame \<Rightarrow> ('v label, npfloat) frame" where
  "engine_total_percentages t =
     (let total = grand_total (iloc_no_margins t);
          nr = length (index t);
          nc = length (columns t);
          body = map (map (\<lambda>x. if 0 < total then Fin (x / total * 100) else Fin 0)) (cells t)
      in \<lparr>index = index t, columns = columns t,
          cells = body[nr - 1 := (body ! (nr - 1))[nc - 1 := Fin 100]]\<rparr>)"

definition squote :: string where
  "squote = [CHR 0x27]"

definition row_not_found :: "string \<Rightarrow> string" where
  "row_not_found row_var = ''Row variable '' @ squote @ row_var @ squote @ '' not found in data''"

definition col_not_found :: "string \<Rightarrow> string" where
  "col_not_found col_var =
     ''Column variable '' @ squote @ col_var @ squote @ '' not found in data''"

text \<open>The chi-square block of \<^verbatim>\<open>create_crosstab\<close>, on the table with its margins.\<close>

definition engine_statistics :: "('v label, real) frame \<Rightarrow> error + CrosstabStatistics" where
  "engine_statistics t =
     (let chi2_table = iloc_no_margins t;
          nr = fst (shape chi2_table);
          nc = snd (shape chi2_table)
      in if nr = 1 \<or> nc = 1 then
           Inr \<lparr>chi_square = Fin 0, p_value = Value (Fin 1), degrees_of_freedom = 0,
                cramers_v = Fin 0,
                expected_values = map (map Fin) (cells chi2_table),
                residuals = replicate nr (replicate nc (Fin 0))\<rparr>
         else
           (case chi2_contingency chi2_table of
              Inl e \<Rightarrow> Inl e
            | Inr (chi2, p, dof, expected) \<Rightarrow>
                let n = grand_total chi2_table;
                    min_dim = int (min nr nc) - 1;
                    v = (if 0 < n \<and> 0 < min_dim
                         then np_sqrt (np_div chi2 (Fin (n * real_of_int min_dim)))
                         else Fin 0);
                    res = map2 (map2 (\<lambda>ob ex. np_div (np_sub (Fin ob) ex) (np_sqrt ex)))
                            (cells chi2_table) expected
                in Inr \<lparr>chi_square = chi2, p_value = p, degrees_of_freedom = real dof,
                       cramers_v = v, expected_values = expected, residuals = res\<rparr>))"

text \<open>
  The percentage block reads the row labelled \<^verbatim>\<open>'All'\<close> through \<^verbatim>\<open>table.loc['All', ...]\<close>,
  which raises a \<^verbatim>\<open>KeyError\<close> on a table with no such row: the table with no row and no
  column.
\<close>

definition engine_percentages ::
  "('v label, real) frame \<Rightarrow>
   error + (('v label, npfloat) frame \<times> ('v label, npfloat) frame \<times> ('v label, npfloat) frame)" where
  "engine_percentages t =
     (if All_label \<in> set (index t) then
        Inr (engine_row_percentages t, engine_column_percentages t, engine_total_percentages t)
      else Inl (KeyError ''All''))"

definition create_crosstab ::
  "'v::linorder label dataset \<Rightarrow> string \<Rightarrow> string \<Rightarrow> bool \<Rightarrow> bool \<Rightarrow>
   error + 'v CrosstabResult" where
  "create_crosstab data row_var col_var include_percentages include_statistics =
     (if df_empty data then Inl (ValueError ''DataFrame is empty'')
      else
        (case map_of data row_var of
           None \<Rightarrow> Inl (ValueError (row_not_found row_var))
         | Some rs \<Rightarrow>
        (case map_of data col_var of
           None \<Rightarrow> Inl (ValueError (col_not_found col_var))
         | Some cs \<Rightarrow>
        if isna_all rs \<or> isna_all cs then Inl (ValueError ''Variable contains all null values'')
        else
        (case pd_crosstab_margins rs cs of
           Inl e \<Rightarrow> Inl e
         | Inr t \<Rightarrow>
        (case (if include_percentages then map_sum id Some (engine_percentages t) else Inr None) of
           Inl e \<Rightarrow> Inl e
         | Inr views \<Rightarrow>
        (case (if include_statistics \<and> \<not> df_empty data
               then map_sum id Some (engine_statistics t) else Inr None) of
           Inl e \<Rightarrow> Inl e
         | Inr st \<Rightarrow>
             Inr \<lparr>table = t,
                  row_percentages = map_option fst views,
                  column_percentages = map_option (fst \<circ> snd) views,
                  total_percentages = map_option (snd \<circ> snd) views,
                  statistics = st\<rparr>))))))"

subsection \<open>\<^verbatim>\<open>CrosstabEngine.create_banner_table\<close>\<close>

text \<open>
  The two banner entry points run the same nested loop over the row variables and, for
  each, the column variables; they differ in the key they build and in the per-pair
  operation they call. \<open>results\<close> is the dictionary: an association list in insertion
  order, where assigning to a key that is present replaces its value in place. An
  exception of the per-pair call leaves the loop at once.
\<close>

fun banner_cols ::
  "(string \<Rightarrow> string \<Rightarrow> string) \<Rightarrow> (string \<Rightarrow> string \<Rightarrow> error + 'r) \<Rightarrow> string \<Rightarrow> string list \<Rightarrow>
   (string \<times> 'r) list \<Rightarrow> error + (string \<times> 'r) list" where
  "banner_cols key f row_var [] results = Inr results"
| "banner_cols key f row_var (col_var # col_vars) results =
     (case f row_var col_var of
        Inl e \<Rightarrow> Inl e
      | Inr x \<Rightarrow> banner_cols key f row_var col_vars (AList.update (key row_var col_var) x results))"

fun banner_rows ::
  "(string \<Rightarrow> string \<Rightarrow> string) \<Rightarrow> (string \<Rightarrow> string \<Rightarrow> error + 'r) \<Rightarrow> string list \<Rightarrow> string list \<Rightarrow>
   (string \<times> 'r) list \<Rightarrow> error + (string \<times> 'r) list" where
  "banner_rows key f [] col_vars results = Inr results"
| "banner_rows key f (row_var # row_vars) col_vars results =
     (case banner_cols key f row_var col_vars results of
        Inl e \<Rightarrow> Inl e
      | Inr results' \<Rightarrow> banner_rows key f row_vars col_vars results')"

text \<open>The same loop over the list of pairs, in the order the nested loops visit them.\<close>

fun banner_flat ::
  "(string \<Rightarrow> string \<Rightarrow> string) \<Rightarrow> (string \<Rightarrow> string \<Rightarrow> error + 'r) \<Rightarrow> (string \<times> string) list \<Rightarrow>
   (string \<times> 'r) list \<Rightarrow> error + (string \<times> 'r) list" where
  "banner_flat key f [] results = Inr results"
| "banner_flat key f ((row_var, col_var) # pairs) results =
     (case f row_var col_var of
        Inl e \<Rightarrow> Inl e
      | Inr x \<Rightarrow> banner_flat key f pairs (AList.update (key row_var col_var) x results))"

definition create_banner_table_key :: "string \<Rightarrow> string \<Rightarrow> string" where
  "create_banner_table_key row_var col_var = row_var @ '' x '' @ col_var"

definition create_banner_table ::
  "'v::linorder label dataset \<Rightarrow> string list \<Rightarrow> string list \<Rightarrow> bool \<Rightarrow> bool \<Rightarrow>
   error + (string \<times> 'v CrosstabResult) list" where
  "create_banner_table data row_vars col_vars include_percentages include_statistics =
     banner_rows create_banner_table_key
       (\<lambda>row_var col_var.
          create_crosstab data row_var col_var include_percentages include_statistics)
       row_vars col_vars []"

subsection \<open>The helpers of \<^verbatim>\<open>CrosstabEngine\<close>\<close>


text \<open>
  \<^verbatim>\<open>_calculate_residuals\<close>: \<^verbatim>\<open>(observed - expected) / np.sqrt(expected)\<close>, cell by cell
  on two frames with the same labels.
\<close>

definition residual_cell :: "real \<Rightarrow> real \<Rightarrow> npfloat" where
  "residual_cell ob ex = np_div (np_sub (Fin ob) (Fin ex)) (np_sqrt (Fin ex))"

definition CrosstabEngine_calculate_residuals ::
  "('l, real) frame \<Rightarrow> ('l, real) frame \<Rightarrow> error + ('l, npfloat) frame" where
  "CrosstabEngine_calculate_residuals observed expected =
     (if index observed = index expected \<and> columns observed = columns expected then
        Inr \<lparr>index = index observed, columns = columns observed,
             cells = map2 (map2 residual_cell) (cells observed) (cells expected)\<rparr>
      else Inl (OutsideModel ''alignment of frames with different labels''))"

definition CrosstabEngine_calculate_cramers_v :: "('l, real) frame \<Rightarrow> npfloat \<Rightarrow> npfloat" where
  "CrosstabEngine_calculate_cramers_v t chi2 =
     (let n = grand_total t;
          k = int (min (fst (shape t)) (snd (shape t))) - 1
      in np_sqrt (np_div chi2 (Fin (n * real_of_int k))))"

subsection \<open>\<^verbatim>\<open>CrosstabGenerator\<close> and \<^verbatim>\<open>BannerTableGenerator\<close>\<close>

text \<open>
  The percentage views of the generator divide the table it built with margins by its
  row sums, its column sums and its overall sum, margins included, with no guard.
\<close>

definition CrosstabGenerator_calculate_row_percentages ::
  "('l, real) frame \<Rightarrow> ('l, npfloat) frame" where
  "CrosstabGenerator_calculate_row_percentages t =
     \<lparr>index = index t, columns = columns t,
      cells = map (\<lambda>row. map (\<lambda>x. np_mul (np_div (Fin x) (Fin (sum_list row))) (Fin 100)) row)
                (cells t)\<rparr>"

definition CrosstabGenerator_calculate_column_percentages ::
  "('l, real) frame \<Rightarrow> ('l, npfloat) frame" where
  "CrosstabGenerator_calculate_column_percentages t =
     \<lparr>index = index t, columns = columns t,
      cells = map (\<lambda>row. map2 (\<lambda>x s. np_mul (np_div (Fin x) (Fin s)) (Fin 100)) row
                           (col_totals t))
                (cells t)\<rparr>"

definition CrosstabGenerator_calculate_total_percentages ::
  "('l, real) frame \<Rightarrow> ('l, npfloat) frame" where
  "CrosstabGenerator_calculate_total_percentages t =
     \<lparr>index = index t, columns = columns t,
      cells = map (map (\<lambda>x. np_mul (np_div (Fin x) (Fin (grand_total t))) (Fin 100)))
                (cells t)\<rparr>"

text \<open>A value of the dictionary that \<^verbatim>\<open>generate\<close> hands to the result model.\<close>

datatype pyvalue = PyFloat libfloat | PyMatrix "npfloat list list"

definition CrosstabGenerator_calculate_statistics ::
  "('l, real) frame \<Rightarrow> error + (string \<times> pyvalue) list" where
  "CrosstabGenerator_calculate_statistics t =
     (let table_no_margins = iloc_no_margins t in
      case chi2_contingency table_no_margins of
        Inl e \<Rightarrow> Inl e
      | Inr (chi2, p, dof, expected) \<Rightarrow>
          let n = grand_total table_no_margins;
              min_dim = int (min (fst (shape table_no_margins)) (snd (shape table_no_margins))) - 1;
              v = np_sqrt (np_div chi2 (Fin (n * real_of_int min_dim)))
          in Inr [(''chi_square'', PyFloat (Value chi2)),
                  (''p_value'', PyFloat p),
                  (''degrees_of_freedom'', PyFloat (Value (Fin (real dof)))),
                  (''cramers_v'', PyFloat (Value v))])"

definition CrosstabGenerator_calculate_expected_values ::
  "('l, real) frame \<Rightarrow> error + ('l, npfloat) frame" where
  "CrosstabGenerator_calculate_expected_values t =
     (let table_no_margins = iloc_no_margins t in
      case chi2_contingency table_no_margins of
        Inl e \<Rightarrow> Inl e
      | Inr (chi2, p, dof, expected) \<Rightarrow>
          Inr \<lparr>index = index table_no_margins, columns = columns table_no_margins,
               cells = expected\<rparr>)"

definition CrosstabGenerator_calculate_residuals ::
  "('l, real) frame \<Rightarrow> ('l, npfloat) frame \<Rightarrow> ('l, npfloat) frame" where
  "CrosstabGenerator_calculate_residuals observed expected =
     (let observed_no_margins = iloc_no_margins observed in
      \<lparr>index = index observed_no_margins, columns = columns observed_no_margins,
       cells = map2 (map2 (\<lambda>ob ex. np_div (np_sub (Fin ob) ex) (np_sqrt ex)))
                 (cells observed_no_margins) (cells expected)\<rparr>)"

text \<open>
  \<^verbatim>\<open>CrosstabResult(**result)\<close>. The field \<^verbatim>\<open>statistics\<close> is given as a dictionary, from
  which the model builds a \<^verbatim>\<open>CrosstabStatistics\<close>; that class declares six fields, none
  with a default, so a dictionary that lacks one of them is refused. The keys
  \<^verbatim>\<open>expected_values\<close> and \<^verbatim>\<open>residuals\<close> of \<^verbatim>\<open>result\<close> itself name no field of
  \<^verbatim>\<open>CrosstabResult\<close> and are ignored.
\<close>

definition CrosstabStatistics_fields :: "string list" where
  "CrosstabStatistics_fields =
     [''chi_square'', ''p_value'', ''degrees_of_freedom'', ''cramers_v'', ''expected_values'',
      ''residuals'']"

definition the_float :: "pyvalue option \<Rightarrow> libfloat" where
  "the_float v = (case v of Some (PyFloat x) \<Rightarrow> x | _ \<Rightarrow> Value NaN)"

definition the_number :: "pyvalue option \<Rightarrow> npfloat" where
  "the_number v = (case v of Some (PyFloat (Value x)) \<Rightarrow> x | _ \<Rightarrow> NaN)"

definition the_real :: "pyvalue option \<Rightarrow> real" where
  "the_real v = (case v of Some (PyFloat (Value (Fin x))) \<Rightarrow> x | _ \<Rightarrow> 0)"

definition the_matrix :: "pyvalue option \<Rightarrow> npfloat list list" where
  "the_matrix v = (case v of Some (PyMatrix m) \<Rightarrow> m | _ \<Rightarrow> [])"

definition CrosstabStatistics_of_dict :: "(string \<times> pyvalue) list \<Rightarrow> error + CrosstabStatistics" where
  "CrosstabStatistics_of_dict d =
     (if list_ex (\<lambda>k. map_of d k = None) CrosstabStatistics_fields then
        Inl (PydanticValidationError ''statistics: Field required'')
      else
        Inr \<lparr>chi_square = the_number (map_of d ''chi_square''),
             p_value = the_float (map_of d ''p_value''),
             degrees_of_freedom = the_real (map_of d ''degrees_of_freedom''),
             cramers_v = the_number (map_of d ''cramers_v''),
             expected_values = the_matrix (map_of d ''expected_values''),
             residuals = the_matrix (map_of d ''residuals'')\<rparr>)"

definition CrosstabResult_of_dict ::
  "('v label, real) frame \<Rightarrow> ('v label, npfloat) frame \<Rightarrow> ('v label, npfloat) frame \<Rightarrow>
   ('v label, npfloat) frame \<Rightarrow> (string \<times> pyvalue) list \<Rightarrow>
   ('v label, npfloat) frame option \<Rightarrow> ('v label, npfloat) frame option \<Rightarrow>
   error + 'v CrosstabResult" where
  "CrosstabResult_of_dict t rp cp tp stats expected resid =
     (case CrosstabStatistics_of_dict stats of
        Inl e \<Rightarrow> Inl e
      | Inr st \<Rightarrow>
          Inr \<lparr>table = t, row_percentages = Some rp, column_percentages = Some cp,
               total_percentages = Some tp, statistics = Some st\<rparr>)"

definition generate ::
  "'v::linorder label dataset \<Rightarrow> string \<Rightarrow> string \<Rightarrow> bool \<Rightarrow> bool \<Rightarrow>
   error + 'v CrosstabResult" where
  "generate data row_var col_var include_percentages include_statistics =
     (case map_of data row_var of
        None \<Rightarrow> Inl (KeyError row_var)
      | Some rs \<Rightarrow>
     (case map_of data col_var of
        None \<Rightarrow> Inl (KeyError col_var)
      | Some cs \<Rightarrow>
     (case pd_crosstab_margins rs cs of
        Inl e \<Rightarrow> Inl e
      | Inr t \<Rightarrow>
     (case (if include_statistics then CrosstabGenerator_calculate_statistics t else Inr []) of
        Inl e \<Rightarrow> Inl e
      | Inr stats \<Rightarrow>
     (case (if include_statistics
            then map_sum id Some (CrosstabGenerator_calculate_expected_values t)
            else Inr None) of
        Inl e \<Rightarrow> Inl e
      | Inr expected \<Rightarrow>
          CrosstabResult_of_dict t
            (CrosstabGenerator_calculate_row_percentages t)
            (CrosstabGenerator_calculate_column_percentages t)
            (CrosstabGenerator_calculate_total_percentages t)
            stats
            expected
            (map_option (CrosstabGenerator_calculate_residuals t) expected))))))"

definition generate_banner_key :: "string \<Rightarrow> string \<Rightarrow> string" where
  "generate_banner_key row_var col_var = row_var @ ''_by_'' @ col_var"

definition generate_banner ::
  "'v::linorder label dataset \<Rightarrow> string list \<Rightarrow> string list \<Rightarrow> bool \<Rightarrow> bool \<Rightarrow>
   error + (string \<times> 'v CrosstabResult) list" where
  "generate_banner data row_vars col_vars include_percentages include_statistics =
     banner_rows generate_banner_key
       (\<lambda>row_var col_var. generate data row_var col_var include_percentages include_statistics)
       row_vars col_vars []"

subsection \<open>\<^verbatim>\<open>CrosstabEngine.perform_statistical_test\<close>\<close>

text \<open>
  The values of the data are numbers here: the t-test and the analysis of variance compute
  with the second variable. \<^verbatim>\<open>Series.unique()\<close> lists the distinct values of a column in
  the order of their first occurrence, the missing marker among them; a comparison with
  the missing marker selects no row. \<^verbatim>\<open>Series.mean()\<close> and \<^verbatim>\<open>Series.var()\<close> skip missing
  values; the variance is the sample variance (divisor \<open>n - 1\<close>), \<open>NaN\<close> below two values.
\<close>

datatype StatisticType = CHI_SQUARE | FISHER_EXACT | T_TEST | ANOVA

text \<open>The argument \<^verbatim>\<open>test_type\<close>: a member of the enumeration, or any other Python value.\<close>

datatype test_type_arg = Member StatisticType | Other string

datatype dof = DofInt nat | DofPair int int

record StatisticalResult =
  test_type :: test_type_arg
  statistic :: libfloat
  result_p_value :: libfloat
  result_degrees_of_freedom :: "dof option"
  effect_size :: "npfloat option"

definition unique :: "'v series \<Rightarrow> 'v option list" where
  "unique col = rev (remdups (rev col))"

definition select_rows :: "'v series \<Rightarrow> 'v option \<Rightarrow> 'a list \<Rightarrow> 'a list" where
  "select_rows keys g col =
     (case g of
        None \<Rightarrow> []
      | Some v \<Rightarrow> map snd (filter (\<lambda>(k, x). k = Some v) (zip keys col)))"

definition present :: "real series \<Rightarrow> real list" where
  "present col = concat (map (\<lambda>x. case x of None \<Rightarrow> [] | Some v \<Rightarrow> [v]) col)"

definition to_np :: "real option \<Rightarrow> npfloat" where
  "to_np x = (case x of None \<Rightarrow> NaN | Some v \<Rightarrow> Fin v)"

definition Series_mean :: "real series \<Rightarrow> npfloat" where
  "Series_mean col = np_div (Fin (sum_list (present col))) (Fin (real (length (present col))))"

definition Series_var :: "real series \<Rightarrow> npfloat" where
  "Series_var col =
     (let xs = present col; n = length xs; m = sum_list xs / real n
      in if n \<le> 1 then NaN
         else Fin (sum_list (map (\<lambda>x. (x - m) ^ 2) xs) / real (n - 1)))"

text \<open>
  \<^verbatim>\<open>scipy.stats.fisher_exact\<close>. On a 2 by 2 table it refuses a negative cell; the odds
  ratio is \<open>NaN\<close> when a row or a column sums to zero, infinite when a cell of the second
  diagonal is zero; the p-value is kept as the call. A table of another shape is not
  refused (SciPy 1.15 and later): the library answers with a statistic and a p-value of
  its own for such a table, both kept as the calls.
\<close>

definition fisher_exact :: "('l, real) frame \<Rightarrow> error + (libfloat \<times> libfloat)" where
  "fisher_exact t =
     (if shape t = (2, 2) then
        (if list_ex (list_ex (\<lambda>x. x < 0)) (cells t) then
           Inl (ValueError ''All values in `table` must be nonnegative.'')
         else if list_ex (\<lambda>s. s = 0) (col_totals t) \<or> list_ex (\<lambda>s. s = 0) (row_totals t) then
           Inr (Value NaN, Value (Fin 1))
         else
           let a = cells t ! 0 ! 0; b = cells t ! 0 ! 1; c = cells t ! 1 ! 0; d = cells t ! 1 ! 1
           in Inr (Value (if 0 < c \<and> 0 < b then Fin (a * d / (c * b)) else PInf),
                   Scipy ''fisher_exact.pvalue'' (map (map Fin) (cells t))))
      else if fst (shape t) * snd (shape t) = 0 \<or> list_ex (list_ex (\<lambda>x. x < 0)) (cells t) then
        Inl (OutsideModel ''fisher_exact on a table with no cell or a negative cell'')
      else
        Inr (Scipy ''fisher_exact.statistic'' (map (map Fin) (cells t)),
             Scipy ''fisher_exact.pvalue'' (map (map Fin) (cells t))))"

definition perform_statistical_test ::
  "real dataset \<Rightarrow> string \<Rightarrow> string \<Rightarrow> test_type_arg \<Rightarrow> error + StatisticalResult" where
  "perform_statistical_test data var1 var2 kind =
     (case kind of
        Member CHI_SQUARE \<Rightarrow>
          (case map_of data var1 of None \<Rightarrow> Inl (KeyError var1) | Some col1 \<Rightarrow>
          (case map_of data var2 of None \<Rightarrow> Inl (KeyError var2) | Some col2 \<Rightarrow>
           let t = pd_crosstab col1 col2 in
          (case chi2_contingency t of
             Inl e \<Rightarrow> Inl e
           | Inr (chi2, p, dof, expected) \<Rightarrow>
               Inr \<lparr>test_type = kind, statistic = Value chi2, result_p_value = p,
                    result_degrees_of_freedom = Some (DofInt dof),
                    effect_size = Some (CrosstabEngine_calculate_cramers_v t chi2)\<rparr>)))
      | Member FISHER_EXACT \<Rightarrow>
          (case map_of data var1 of None \<Rightarrow> Inl (KeyError var1) | Some col1 \<Rightarrow>
          (case map_of data var2 of None \<Rightarrow> Inl (KeyError var2) | Some col2 \<Rightarrow>
          (case fisher_exact (pd_crosstab col1 col2) of
             Inl e \<Rightarrow> Inl e
           | Inr (odds_ratio, p) \<Rightarrow>
               Inr \<lparr>test_type = kind, statistic = odds_ratio, result_p_value = p,
                    result_degrees_of_freedom = None, effect_size = None\<rparr>)))
      | Member T_TEST \<Rightarrow>
          (case map_of data var1 of None \<Rightarrow> Inl (KeyError var1) | Some col1 \<Rightarrow>
           let groups = unique col1 in
           if length groups \<noteq> 2 then Inl (ValueError ''T-test requires exactly 2 groups'')
           else
          (case map_of data var2 of None \<Rightarrow> Inl (KeyError var2) | Some col2 \<Rightarrow>
           let group1 = select_rows col1 (groups ! 0) col2;
               group2 = select_rows col1 (groups ! 1) col2;
               effect = np_div (np_sub (Series_mean group1) (Series_mean group2))
                          (np_sqrt (np_div (np_add (Series_var group1) (Series_var group2))
                                      (Fin 2)))
           in Inr \<lparr>test_type = kind,
                   statistic = Scipy ''ttest_ind.statistic'' [map to_np group1, map to_np group2],
                   result_p_value =
                     Scipy ''ttest_ind.pvalue'' [map to_np group1, map to_np group2],
                   result_degrees_of_freedom = None,
                   effect_size = Some effect\<rparr>))
      | Member ANOVA \<Rightarrow>
          (case map_of data var1 of None \<Rightarrow> Inl (KeyError var1) | Some col1 \<Rightarrow>
           let groups = unique col1 in
           if length groups < 2 then Inl (ValueError ''ANOVA requires at least 2 groups'')
           else
          (case map_of data var2 of None \<Rightarrow> Inl (KeyError var2) | Some col2 \<Rightarrow>
           let group_data = map (\<lambda>g. select_rows col1 g col2) groups;
               m = Series_mean col2;
               total_ss = np_sum (map (\<lambda>x. np_mul (np_sub (to_np x) m) (np_sub (to_np x) m)) col2);
               between_ss =
                 np_sum (map (\<lambda>g. np_mul (Fin (real (length g)))
                                     (np_mul (np_sub (Series_mean g) m) (np_sub (Series_mean g) m)))
                           group_data)
           in Inr \<lparr>test_type = kind,
                   statistic = Scipy ''f_oneway.statistic'' (map (map to_np) group_data),
                   result_p_value = Scipy ''f_oneway.pvalue'' (map (map to_np) group_data),
                   result_degrees_of_freedom =
                     Some (DofPair (int (length groups) - 1)
                             (int (length col1) - int (length groups))),
                   effect_size = Some (np_div between_ss total_ss)\<rparr>))
      | Other name \<Rightarrow> Inl (ValueError (''Unsupported test type: '' @ name)))"

subsection \<open>Statistics as the specification words them\<close>

text \<open>
  The mean and the sample variance of a non-empty list of numbers, and the standardized
  mean difference \<open>(mean\<^sub>1 - mean\<^sub>2) / sqrt ((var\<^sub>1 + var\<^sub>2) / 2)\<close>.
\<close>

definition mean :: "real list \<Rightarrow> real" where
  "mean xs = sum_list xs / real (length xs)"

definition variance :: "real list \<Rightarrow> real" where
  "variance xs = sum_list (map (\<lambda>x. (x - mean xs) ^ 2) xs) / real (length xs - 1)"

definition mean_difference_effect :: "real list \<Rightarrow> real list \<Rightarrow> real" where
  "mean_difference_effect xs ys = (mean xs - mean ys) / sqrt ((variance xs + variance ys) / 2)"

text \<open>
  The expected-frequency matrix as the specification words it, to compare the code with:
  cell (i, j) is row total i times column total j over the grand total.
\<close>

definition spec_expected_frequencies :: "('l, real) frame \<Rightarrow> npfloat list list" where
  "spec_expected_frequencies t =
     map (\<lambda>r. map (\<lambda>c. Fin (r * c / grand_total t)) (col_totals t)) (row_totals t)"

text \<open>A float is finite when it is neither an infinity nor \<open>NaN\<close>.\<close>

definition is_finite :: "npfloat \<Rightarrow> bool" where
  "is_finite x = (case x of Fin _ \<Rightarrow> True | _ \<Rightarrow> False)"

subsection \<open>Data frames of the test suite\<close>

text \<open>
  The categorical columns of the fixtures of \<^verbatim>\<open>tests/test_backend_integration.py\<close>:
  \<^verbatim>\<open>sample_data\<close>, and the two frames of \<^verbatim>\<open>test_crosstab_edge_cases\<close>.
\<close>

definition sample_data :: "string label dataset" where
  "sample_data =
     [(''gender'', [Some (Cat ''Male''), Some (Cat ''Female''), Some (Cat ''Male''),
                    Some (Cat ''Female'')]),
      (''satisfaction'', [Some (Cat ''High''), Some (Cat ''Medium''), Some (Cat ''Low''),
                          Some (Cat ''High'')])]"

definition single_value_df :: "string label dataset" where
  "single_value_df =
     [(''gender'', [Some (Cat ''Male''), Some (Cat ''Male''), Some (Cat ''Male''),
                    Some (Cat ''Male'')]),
      (''satisfaction'', [Some (Cat ''High''), Some (Cat ''Medium''), Some (Cat ''Low''),
                          Some (Cat ''High'')])]"

definition null_df :: "string label dataset" where
  "null_df =
     [(''gender'', [None, None, None, None]),
      (''satisfaction'', [Some (Cat ''High''), Some (Cat ''Medium''), Some (Cat ''Low''),
                          Some (Cat ''High'')])]"

text \<open>The frame of \<^verbatim>\<open>test_perform_statistical_test_fisher_exact\<close>, with A, B and No, Yes
  coded as 0, 1, and a frame with two groups of three measurements.\<close>

definition fisher_df :: "real dataset" where
  "fisher_df =
     [(''group'', [Some 0, Some 0, Some 1, Some 1]),
      (''outcome'', [Some 1, Some 0, Some 1, Some 0])]"

definition two_groups_df :: "real dataset" where
  "two_groups_df =
     [(''group'', [Some 0, Some 0, Some 0, Some 1, Some 1, Some 1]),
      (''value'', [Some 1, Some 2, Some 3, Some 2, Some 4, Some 6])]"

text \<open>A frame in which the grouping variable has one value and is missing in two rows.\<close>

definition missing_group_df :: "real dataset" where
  "missing_group_df =
     [(''group'', [Some 0, Some 0, None, None]),
      (''value'', [Some 1, Some 2, Some 3, Some 5])]"

section \<open>Properties\<close>

subsection \<open>Margins of the contingency table\<close>

lemma sum_list_indicator:
  "distinct cs \<Longrightarrow> b \<in> set cs \<Longrightarrow> sum_list (map (\<lambda>c. if b = c then 1 else (0::nat)) cs) = 1"
  by (induction cs) auto

lemma sum_list_indicator_notin:
  "b \<notin> set cs \<Longrightarrow> sum_list (map (\<lambda>c. if b = c then 1 else (0::nat)) cs) = 0"
  by (induction cs) auto

lemma count_row_split:
  "distinct cs \<Longrightarrow> snd ` set ps \<subseteq> set cs \<Longrightarrow>
   sum_list (map (\<lambda>c. length (filter (\<lambda>p. p = (r, c)) ps)) cs) = length (filter (\<lambda>p. fst p = r) ps)"
proof (induction ps)
  case Nil
  then show ?case by (induction cs) auto
next
  case (Cons p ps)
  obtain a b where p: "p = (a, b)" by (cases p)
  from Cons.prems have b: "b \<in> set cs" and sub: "snd ` set ps \<subseteq> set cs" by (auto simp: p)
  have "sum_list (map (\<lambda>c. length (filter (\<lambda>q. q = (r, c)) (p # ps))) cs)
      = sum_list (map (\<lambda>c. (if a = r \<and> b = c then 1 else 0) + length (filter (\<lambda>q. q = (r, c)) ps)) cs)"
    by (rule arg_cong[where f = sum_list], rule map_cong) (auto simp: p)
  also have "\<dots> = sum_list (map (\<lambda>c. if a = r \<and> b = c then 1 else 0) cs)
                 + sum_list (map (\<lambda>c. length (filter (\<lambda>q. q = (r, c)) ps)) cs)"
    by (simp add: sum_list_addf)
  also have "sum_list (map (\<lambda>c. if a = r \<and> b = c then 1 else (0::nat)) cs) = (if a = r then 1 else 0)"
    using sum_list_indicator[OF Cons.prems(1) b] by (cases "a = r") simp_all
  finally show ?case using Cons.IH[OF Cons.prems(1) sub] by (simp add: p)
qed

lemma count_col_split:
  "distinct rs \<Longrightarrow> fst ` set ps \<subseteq> set rs \<Longrightarrow>
   sum_list (map (\<lambda>r. length (filter (\<lambda>p. p = (r, c)) ps)) rs) = length (filter (\<lambda>p. snd p = c) ps)"
proof (induction ps)
  case Nil
  then show ?case by (induction rs) auto
next
  case (Cons p ps)
  obtain a b where p: "p = (a, b)" by (cases p)
  from Cons.prems have a: "a \<in> set rs" and sub: "fst ` set ps \<subseteq> set rs" by (auto simp: p)
  have "sum_list (map (\<lambda>r. length (filter (\<lambda>q. q = (r, c)) (p # ps))) rs)
      = sum_list (map (\<lambda>r. (if b = c \<and> a = r then 1 else 0) + length (filter (\<lambda>q. q = (r, c)) ps)) rs)"
    by (rule arg_cong[where f = sum_list], rule map_cong) (auto simp: p)
  also have "\<dots> = sum_list (map (\<lambda>r. if b = c \<and> a = r then 1 else 0) rs)
                 + sum_list (map (\<lambda>r. length (filter (\<lambda>q. q = (r, c)) ps)) rs)"
    by (simp add: sum_list_addf)
  also have "sum_list (map (\<lambda>r. if b = c \<and> a = r then 1 else (0::nat)) rs) = (if b = c then 1 else 0)"
    using sum_list_indicator[OF Cons.prems(1) a] by (cases "b = c") simp_all
  finally show ?case using Cons.IH[OF Cons.prems(1) sub] by (simp add: p)
qed

lemma count_all_split:
  "distinct rs \<Longrightarrow> fst ` set ps \<subseteq> set rs \<Longrightarrow>
   sum_list (map (\<lambda>r. length (filter (\<lambda>p. fst p = r) ps)) rs) = length ps"
proof (induction ps)
  case Nil
  then show ?case by (induction rs) auto
next
  case (Cons p ps)
  from Cons.prems have a: "fst p \<in> set rs" and sub: "fst ` set ps \<subseteq> set rs" by auto
  have "sum_list (map (\<lambda>r. length (filter (\<lambda>q. fst q = r) (p # ps))) rs)
      = sum_list (map (\<lambda>r. (if fst p = r then 1 else 0) + length (filter (\<lambda>q. fst q = r) ps)) rs)"
    by (rule arg_cong[where f = sum_list], rule map_cong) auto
  also have "\<dots> = sum_list (map (\<lambda>r. if fst p = r then 1 else 0) rs)
                 + sum_list (map (\<lambda>r. length (filter (\<lambda>q. fst q = r) ps)) rs)"
    by (simp add: sum_list_addf)
  finally show ?case using Cons.IH[OF Cons.prems(1) sub] sum_list_indicator[OF Cons.prems(1) a] by simp
qed

lemma categories_distinct: "distinct (categories xs)"
  by (simp add: categories_def)

lemma categories_set: "set (categories xs) = set xs"
  by (simp add: categories_def)

lemma real_sum_list_map: "real (sum_list (map f xs)) = sum_list (map (\<lambda>x. real (f x)) xs)"
  by (induction xs) auto

lemma row_margin_split:
  "row_margin ps r = sum_list (map (cell_count ps r) (categories (map snd ps)))"
  unfolding row_margin_def cell_count_def
  using count_row_split[of "categories (map snd ps)" ps r]
  by (simp add: categories_distinct categories_set real_sum_list_map[symmetric])

lemma col_margin_split:
  "col_margin ps c = sum_list (map (\<lambda>r. cell_count ps r c) (categories (map fst ps)))"
  unfolding col_margin_def cell_count_def
  using count_col_split[of "categories (map fst ps)" ps c]
  by (simp add: categories_distinct categories_set real_sum_list_map[symmetric])

lemma length_split:
  "real (length ps) = sum_list (map (row_margin ps) (categories (map fst ps)))"
  unfolding row_margin_def
  using count_all_split[of "categories (map fst ps)" ps]
  by (simp add: categories_distinct categories_set real_sum_list_map[symmetric])


lemma col_totals_body:
  assumes "length cols = length ccats"
  shows "col_totals \<lparr>index = ix, columns = cols,
      cells = map (\<lambda>r. map (f r) ccats) rcats\<rparr>
   = map (\<lambda>c. sum_list (map (\<lambda>r. f r c) rcats)) ccats"
proof -
  have "map (\<lambda>j. sum_list (map (\<lambda>row. row ! j) (map (\<lambda>r. map (f r) ccats) rcats))) [0..<length ccats]
      = map (\<lambda>j. (\<lambda>c. sum_list (map (\<lambda>r. f r c) rcats)) (ccats ! j)) [0..<length ccats]"
    by (rule map_cong) (auto simp: comp_def)
  also have "\<dots> = map (\<lambda>c. sum_list (map (\<lambda>r. f r c) rcats)) ccats"
    by (rule nth_equalityI) simp_all
  finally show ?thesis by (simp add: col_totals_def assms)
qed

lemma plain_pairs_id:
  "All_label \<notin> set (map fst ls) \<Longrightarrow> All_label \<notin> set (map snd ls) \<Longrightarrow>
   length (plain_pairs ls) = length ls"
proof (induction ls)
  case Nil
  then show ?case by simp
next
  case (Cons p ls)
  obtain a b where p: "p = (a, b)" by (cases p)
  from Cons show ?case by (cases a; cases b) (auto simp: p)
qed

lemma pd_crosstab_margins_cases:
  assumes "pd_crosstab_margins rs cs = Inr t"
  obtains (empty) "t = \<lparr>index = [], columns = [], cells = []\<rparr>"
  | (table) ps where "ps \<noteq> []"
      "t = \<lparr>index = map Cat (categories (map fst ps)) @ [All_label],
            columns = map Cat (categories (map snd ps)) @ [All_label],
            cells = map (\<lambda>r. map (cell_count ps r) (categories (map snd ps)) @ [row_margin ps r])
                      (categories (map fst ps))
                    @ [map (col_margin ps) (categories (map snd ps)) @ [real (length ps)]]\<rparr>"
proof (cases "complete_pairs rs cs = []")
  case True
  with assms have "t = \<lparr>index = [], columns = [], cells = []\<rparr>"
    by (simp add: pd_crosstab_margins_def)
  then show ?thesis by (rule empty)
next
  case False
  with assms have no: "All_label \<notin> set (map fst (complete_pairs rs cs))"
      "All_label \<notin> set (map snd (complete_pairs rs cs))"
    by (auto simp: pd_crosstab_margins_def Let_def split: if_splits)
  then have "length (plain_pairs (complete_pairs rs cs)) = length (complete_pairs rs cs)"
    by (rule plain_pairs_id)
  with False have ne: "plain_pairs (complete_pairs rs cs) \<noteq> []" by auto
  from assms False no show ?thesis
    by (intro table[OF ne]) (auto simp: pd_crosstab_margins_def Let_def split: if_splits)
qed

lemma crosstab_margin_facts:
  assumes "ps \<noteq> []"
    and "t = \<lparr>index = map Cat (categories (map fst ps)) @ [All_label],
            columns = map Cat (categories (map snd ps)) @ [All_label],
            cells = map (\<lambda>r. map (cell_count ps r) (categories (map snd ps)) @ [row_margin ps r])
                      (categories (map fst ps))
                    @ [map (col_margin ps) (categories (map snd ps)) @ [real (length ps)]]\<rparr>"
  shows "last (index t) = All_label"
    and "last (columns t) = All_label"
    and "map last (butlast (cells t)) = row_totals (iloc_no_margins t)"
    and "butlast (last (cells t)) = col_totals (iloc_no_margins t)"
    and "last (last (cells t)) = grand_total (iloc_no_margins t)"
    and "iloc_no_margins t =
           \<lparr>index = map Cat (categories (map fst ps)), columns = map Cat (categories (map snd ps)),
            cells = map (\<lambda>r. map (cell_count ps r) (categories (map snd ps)))
                      (categories (map fst ps))\<rparr>"
    and "grand_total (iloc_no_margins t) = real (length ps)"
proof -
  define rcats where "rcats = categories (map fst ps)"
  define ccats where "ccats = categories (map snd ps)"
  have t: "t = \<lparr>index = map Cat rcats @ [All_label],
                columns = map Cat ccats @ [All_label],
                cells = map (\<lambda>r. map (cell_count ps r) ccats @ [row_margin ps r]) rcats
                        @ [map (col_margin ps) ccats @ [real (length ps)]]\<rparr>"
    by (simp add: assms(2) rcats_def ccats_def)
  have body: "iloc_no_margins t = \<lparr>index = map Cat rcats, columns = map Cat ccats,
      cells = map (\<lambda>r. map (cell_count ps r) ccats) rcats\<rparr>"
    by (simp add: t iloc_no_margins_def comp_def)
  show "last (index t) = All_label" "last (columns t) = All_label" by (simp_all add: t)
  show "map last (butlast (cells t)) = row_totals (iloc_no_margins t)"
    by (simp add: body row_totals_def) (simp add: t comp_def row_margin_split ccats_def)
  show "butlast (last (cells t)) = col_totals (iloc_no_margins t)"
    by (simp add: body col_totals_body) (simp add: t col_margin_split rcats_def)
  have "last (last (cells t)) = real (length ps)"
    by (simp add: t)
  also have "\<dots> = sum_list (map (row_margin ps) rcats)"
    by (simp add: length_split rcats_def)
  also have "\<dots> = sum_list (map (\<lambda>r. sum_list (map (cell_count ps r) ccats)) rcats)"
    by (rule arg_cong[where f = sum_list], rule map_cong) (simp_all add: row_margin_split ccats_def)
  also have "\<dots> = grand_total (iloc_no_margins t)"
    by (simp add: body grand_total_def comp_def)
  finally show g: "last (last (cells t)) = grand_total (iloc_no_margins t)" .
  show "iloc_no_margins t =
           \<lparr>index = map Cat (categories (map fst ps)), columns = map Cat (categories (map snd ps)),
            cells = map (\<lambda>r. map (cell_count ps r) (categories (map snd ps)))
                      (categories (map fst ps))\<rparr>"
    by (simp add: body rcats_def ccats_def)
  show "grand_total (iloc_no_margins t) = real (length ps)"
    using g by (simp add: t)
qed

lemma create_crosstab_table:
  assumes "create_crosstab data row_var col_var ip st = Inr res"
  shows "\<exists>rs cs. map_of data row_var = Some rs \<and> map_of data col_var = Some cs
           \<and> pd_crosstab_margins rs cs = Inr (table res)"
  using assms
  by (auto simp: create_crosstab_def split: if_splits option.splits sum.splits)

text \<open>
  Claim C9. A table that \<^verbatim>\<open>create_crosstab\<close> builds is the frame with no row and no column
  (when no row of the data has both values), or its last row and its last column are the
  ones labelled \<^verbatim>\<open>'All'\<close>; then each cell of the \<^verbatim>\<open>'All'\<close> row is the sum of the non-margin
  cells of its column, each cell of the \<^verbatim>\<open>'All'\<close> column is the sum of the non-margin cells
  of its row, and the cell where they meet is the sum of all non-margin cells.
\<close>

theorem create_crosstab_margin_sums:
  assumes "create_crosstab data row_var col_var include_percentages include_statistics = Inr res"
  shows "table res = \<lparr>index = [], columns = [], cells = []\<rparr>
       \<or> (last (index (table res)) = All_label \<and> last (columns (table res)) = All_label
          \<and> butlast (last (cells (table res))) = col_totals (iloc_no_margins (table res))
          \<and> map last (butlast (cells (table res))) = row_totals (iloc_no_margins (table res))
          \<and> last (last (cells (table res))) = grand_total (iloc_no_margins (table res)))"
proof -
  from create_crosstab_table[OF assms] obtain rs cs
    where "pd_crosstab_margins rs cs = Inr (table res)" by blast
  then show ?thesis
  proof (cases rule: pd_crosstab_margins_cases)
    case empty
    then show ?thesis by simp
  next
    case (table ps)
    from crosstab_margin_facts(1-5)[OF table] show ?thesis by simp
  qed
qed

lemma sample_data_crosstab:
  "create_crosstab sample_data ''gender'' ''satisfaction'' False False =
     Inr \<lparr>table = \<lparr>index = [Cat ''Female'', Cat ''Male'', All_label],
                       columns = [Cat ''High'', Cat ''Low'', Cat ''Medium'', All_label],
                       cells = [[1, 0, 1, 2], [1, 1, 0, 2], [2, 1, 1, 4]]\<rparr>,
          row_percentages = None, column_percentages = None, total_percentages = None,
          statistics = None\<rparr>"
  by (simp add: create_crosstab_def sample_data_def df_empty_def isna_all_def pd_crosstab_margins_def engine_percentages_def
      categories_def cell_count_def row_margin_def col_margin_def Let_def)

theorem create_crosstab_margin_sums_witness:
  "create_crosstab sample_data ''gender'' ''satisfaction'' False False =
     Inr \<lparr>table = \<lparr>index = [Cat ''Female'', Cat ''Male'', All_label],
                       columns = [Cat ''High'', Cat ''Low'', Cat ''Medium'', All_label],
                       cells = [[1, 0, 1, 2], [1, 1, 0, 2], [2, 1, 1, 4]]\<rparr>,
          row_percentages = None, column_percentages = None, total_percentages = None,
          statistics = None\<rparr>
   \<and> col_totals \<lparr>index = [Cat ''Female'', Cat ''Male''],
                   columns = [Cat ''High'', Cat ''Low'', Cat ''Medium''],
                   cells = [[1, 0, 1], [1, 1, 0]]\<rparr> = [2, 1, 1]
   \<and> row_totals \<lparr>index = [Cat ''Female'', Cat ''Male''],
                   columns = [Cat ''High'', Cat ''Low'', Cat ''Medium''],
                   cells = [[1, 0, 1], [1, 1, 0]]\<rparr> = [2, 2]
   \<and> grand_total \<lparr>index = [Cat ''Female'', Cat ''Male''],
                   columns = [Cat ''High'', Cat ''Low'', Cat ''Medium''],
                   cells = [[1, 0, 1], [1, 1, 0]]\<rparr> = 4"
  using create_crosstab_margin_sums [OF sample_data_crosstab] sample_data_crosstab
  by (simp add: iloc_no_margins_def)

lemmas eval_defs = create_crosstab_def sample_data_def df_empty_def isna_all_def pd_crosstab_margins_def engine_percentages_def
  categories_def cell_count_def row_margin_def col_margin_def Let_def engine_statistics_def
  iloc_no_margins_def shape_def chi2_contingency_def expected_freq_def grand_total_def
  row_totals_def col_totals_def pearson_term_def np_sub_def

text \<open>
  The scenario of the specification: on \<^verbatim>\<open>sample_data\<close> the chi-square statistic is 2 with
  two degrees of freedom and Cramer's V is the square root of one half.
\<close>

lemma sample_data_crosstab_statistics:
  "create_crosstab sample_data ''gender'' ''satisfaction'' False True =
     Inr \<lparr>table = \<lparr>index = [Cat ''Female'', Cat ''Male'', All_label],
                       columns = [Cat ''High'', Cat ''Low'', Cat ''Medium'', All_label],
                       cells = [[1, 0, 1, 2], [1, 1, 0, 2], [2, 1, 1, 4]]\<rparr>,
          row_percentages = None, column_percentages = None, total_percentages = None,
          statistics =
            Some \<lparr>chi_square = Fin 2, p_value = Scipy ''chi2.sf'' [[Fin 2, Fin 2]],
                  degrees_of_freedom = 2, cramers_v = Fin (sqrt (1 / 2)),
                  expected_values = [[Fin 1, Fin (1 / 2), Fin (1 / 2)],
                                     [Fin 1, Fin (1 / 2), Fin (1 / 2)]],
                  residuals = [[Fin 0, Fin (- (1 / (2 * sqrt (1 / 2)))), Fin (1 / (2 * sqrt (1 / 2)))],
                               [Fin 0, Fin (1 / (2 * sqrt (1 / 2))), Fin (- (1 / (2 * sqrt (1 / 2))))]]\<rparr>\<rparr>"
  by (simp add: eval_defs)

subsection \<open>The degenerate chi-square case\<close>

text \<open>
  Claim C2. When the table without its margins has exactly one row or exactly one column,
  the statistics that \<^verbatim>\<open>create_crosstab\<close> returns are: statistic 0.0, p-value 1.0, zero
  degrees of freedom, Cramer's V 0.0, the observed cells as expected values, and a
  residual matrix of the same shape filled with 0.0.
\<close>

theorem create_crosstab_degenerate_chi_square:
  assumes "create_crosstab data row_var col_var include_percentages True = Inr res"
    and "fst (shape (iloc_no_margins (table res))) = 1 \<or> snd (shape (iloc_no_margins (table res))) = 1"
  shows "statistics res =
     Some \<lparr>chi_square = Fin 0, p_value = Value (Fin 1), degrees_of_freedom = 0,
           cramers_v = Fin 0,
           expected_values = map (map Fin) (cells (iloc_no_margins (table res))),
           residuals = replicate (fst (shape (iloc_no_margins (table res))))
                         (replicate (snd (shape (iloc_no_margins (table res)))) (Fin 0))\<rparr>"
  using assms
  by (auto simp: create_crosstab_def engine_statistics_def Let_def
      split: if_splits option.splits sum.splits)

lemma single_value_df_crosstab:
  "create_crosstab single_value_df ''gender'' ''satisfaction'' False True =
     Inr \<lparr>table = \<lparr>index = [Cat ''Male'', All_label],
                       columns = [Cat ''High'', Cat ''Low'', Cat ''Medium'', All_label],
                       cells = [[2, 1, 1, 4], [2, 1, 1, 4]]\<rparr>,
          row_percentages = None, column_percentages = None, total_percentages = None,
          statistics = Some \<lparr>chi_square = Fin 0, p_value = Value (Fin 1), degrees_of_freedom = 0,
           cramers_v = Fin 0,
           expected_values = [[Fin 2, Fin 1, Fin 1]],
           residuals = [[Fin 0, Fin 0, Fin 0]]\<rparr>\<rparr>"
  by (simp add: create_crosstab_def single_value_df_def df_empty_def isna_all_def pd_crosstab_margins_def engine_percentages_def
      categories_def cell_count_def row_margin_def col_margin_def Let_def engine_statistics_def
      iloc_no_margins_def shape_def numeral_3_eq_3)

theorem create_crosstab_degenerate_chi_square_witness:
  "create_crosstab single_value_df ''gender'' ''satisfaction'' False True =
     Inr \<lparr>table = \<lparr>index = [Cat ''Male'', All_label],
                       columns = [Cat ''High'', Cat ''Low'', Cat ''Medium'', All_label],
                       cells = [[2, 1, 1, 4], [2, 1, 1, 4]]\<rparr>,
          row_percentages = None, column_percentages = None, total_percentages = None,
          statistics = Some \<lparr>chi_square = Fin 0, p_value = Value (Fin 1), degrees_of_freedom = 0,
           cramers_v = Fin 0,
           expected_values = [[Fin 2, Fin 1, Fin 1]],
           residuals = [[Fin 0, Fin 0, Fin 0]]\<rparr>\<rparr>
   \<and> shape (iloc_no_margins \<lparr>index = [Cat ''Male'', All_label],
                       columns = [Cat ''High'', Cat ''Low'', Cat ''Medium'', All_label],
                       cells = [[2, 1, 1, 4], [2, 1, 1, 4::real]]\<rparr>) = (1, 3)"
proof -
  have s: "fst (shape (iloc_no_margins (table \<lparr>table = \<lparr>index = [Cat ''Male'', All_label],
                       columns = [Cat ''High'', Cat ''Low'', Cat ''Medium'', All_label],
                       cells = [[2, 1, 1, 4], [2, 1, 1, 4]]\<rparr>,
          row_percentages = None, column_percentages = None, total_percentages = None,
          statistics = Some \<lparr>chi_square = Fin 0, p_value = Value (Fin 1), degrees_of_freedom = 0,
           cramers_v = Fin 0,
           expected_values = [[Fin 2, Fin 1, Fin 1]],
           residuals = [[Fin 0, Fin 0, Fin 0]]\<rparr>\<rparr>))) = 1
      \<or> snd (shape (iloc_no_margins (table \<lparr>table = \<lparr>index = [Cat ''Male'', All_label],
                       columns = [Cat ''High'', Cat ''Low'', Cat ''Medium'', All_label],
                       cells = [[2, 1, 1, 4], [2, 1, 1, 4]]\<rparr>,
          row_percentages = None, column_percentages = None, total_percentages = None,
          statistics = Some \<lparr>chi_square = Fin 0, p_value = Value (Fin 1), degrees_of_freedom = 0,
           cramers_v = Fin 0,
           expected_values = [[Fin 2, Fin 1, Fin 1]],
           residuals = [[Fin 0, Fin 0, Fin 0]]\<rparr>\<rparr>))) = 1"
    by (simp add: iloc_no_margins_def shape_def)
  show ?thesis
    using create_crosstab_degenerate_chi_square [OF single_value_df_crosstab s]
      single_value_df_crosstab
    by (simp add: iloc_no_margins_def shape_def)
qed

subsection \<open>Validation of the two variables\<close>

lemma sublist_row_not_found: "sublist v (row_not_found v)"
  unfolding row_not_found_def sublist_def by (metis append.assoc)

lemma sublist_col_not_found: "sublist v (col_not_found v)"
  unfolding col_not_found_def sublist_def by (metis append.assoc)

lemma map_of_None_iff: "map_of data v = None \<longleftrightarrow> v \<notin> set (df_columns data)"
  by (simp add: df_columns_def map_of_eq_None_iff)

lemma engine_statistics_not_validation:
  "engine_statistics t = Inl e \<Longrightarrow>
     e \<noteq> ValueError (row_not_found v) \<and> e \<noteq> ValueError (col_not_found w)
     \<and> e \<noteq> ValueError ''Variable contains all null values''"
  by (auto simp: engine_statistics_def chi2_contingency_def Let_def row_not_found_def
      col_not_found_def split: if_splits sum.splits)

lemma map_sum_id_Inl: "map_sum id f x = Inl e \<longleftrightarrow> x = Inl e"
  by (cases x) auto

lemma pd_crosstab_margins_not_validation:
  "pd_crosstab_margins rs cs = Inl e \<Longrightarrow> e = ValueError conflicting_name"
  by (auto simp: pd_crosstab_margins_def Let_def split: if_splits)

lemma conflicting_name_not_validation:
  "conflicting_name \<noteq> row_not_found v" "conflicting_name \<noteq> col_not_found w"
  "conflicting_name \<noteq> ''Variable contains all null values''"
  by (simp_all add: conflicting_name_def row_not_found_def col_not_found_def)

lemma engine_percentages_not_validation:
  "engine_percentages t = Inl e \<Longrightarrow> e = KeyError ''All''"
  by (auto simp: engine_percentages_def split: if_splits)

text \<open>
  Claim C4, as the code has it. On a data frame that is not empty, \<^verbatim>\<open>create_crosstab\<close>
  raises one of its three validation errors exactly when the row or the column variable is
  no column of the data or one of the two columns holds missing values only. The message
  for an absent variable names it (the name is a part of the message). The message for an
  all-missing column is one fixed text for every variable.
\<close>

theorem create_crosstab_validation:
  assumes "\<not> df_empty data"
  shows "(row_var \<notin> set (df_columns data) \<longrightarrow>
            create_crosstab data row_var col_var ip st = Inl (ValueError (row_not_found row_var))
            \<and> sublist row_var (row_not_found row_var))
       \<and> (row_var \<in> set (df_columns data) \<and> col_var \<notin> set (df_columns data) \<longrightarrow>
            create_crosstab data row_var col_var ip st = Inl (ValueError (col_not_found col_var))
            \<and> sublist col_var (col_not_found col_var))
       \<and> (\<forall>rs cs. map_of data row_var = Some rs \<and> map_of data col_var = Some cs \<longrightarrow>
            (if isna_all rs \<or> isna_all cs
             then create_crosstab data row_var col_var ip st =
                    Inl (ValueError ''Variable contains all null values'')
             else (\<forall>v. create_crosstab data row_var col_var ip st \<noteq> Inl (ValueError (row_not_found v))
                     \<and> create_crosstab data row_var col_var ip st \<noteq> Inl (ValueError (col_not_found v)))
                  \<and> create_crosstab data row_var col_var ip st \<noteq>
                      Inl (ValueError ''Variable contains all null values'')))"
proof (intro conjI impI allI)
  assume "row_var \<notin> set (df_columns data)"
  then have "map_of data row_var = None" by (simp add: map_of_None_iff)
  then show "create_crosstab data row_var col_var ip st = Inl (ValueError (row_not_found row_var))"
    using assms by (simp add: create_crosstab_def)
next
  show "sublist row_var (row_not_found row_var)" by (rule sublist_row_not_found)
next
  assume "row_var \<in> set (df_columns data) \<and> col_var \<notin> set (df_columns data)"
  then have "map_of data row_var \<noteq> None" "map_of data col_var = None"
    by (simp_all add: map_of_None_iff)
  then show "create_crosstab data row_var col_var ip st = Inl (ValueError (col_not_found col_var))"
    using assms by (auto simp: create_crosstab_def)
next
  show "sublist col_var (col_not_found col_var)" by (rule sublist_col_not_found)
next
  fix rs cs
  assume m: "map_of data row_var = Some rs \<and> map_of data col_var = Some cs"
  show "if isna_all rs \<or> isna_all cs
        then create_crosstab data row_var col_var ip st =
               Inl (ValueError ''Variable contains all null values'')
        else (\<forall>v. create_crosstab data row_var col_var ip st \<noteq> Inl (ValueError (row_not_found v))
                \<and> create_crosstab data row_var col_var ip st \<noteq> Inl (ValueError (col_not_found v)))
             \<and> create_crosstab data row_var col_var ip st \<noteq>
                 Inl (ValueError ''Variable contains all null values'')"
  proof (cases "isna_all rs \<or> isna_all cs")
    case True
    then show ?thesis using assms m by (simp add: create_crosstab_def)
  next
    case False
    have "create_crosstab data row_var col_var ip st \<noteq> Inl (ValueError (row_not_found v))
        \<and> create_crosstab data row_var col_var ip st \<noteq> Inl (ValueError (col_not_found w))
        \<and> create_crosstab data row_var col_var ip st \<noteq>
                 Inl (ValueError ''Variable contains all null values'')" for v w
      using assms m False
      by (auto simp: create_crosstab_def map_sum_id_Inl conflicting_name_not_validation
          conflicting_name_not_validation[symmetric]
          split: sum.splits if_splits
          dest: pd_crosstab_margins_not_validation engine_statistics_not_validation
            engine_percentages_not_validation)
    then show ?thesis using False by simp
  qed
qed

lemma null_df_crosstab:
  "create_crosstab null_df ''gender'' ''satisfaction'' True True =
     Inl (ValueError ''Variable contains all null values'')"
  by (simp add: create_crosstab_def null_df_def df_empty_def isna_all_def)

theorem create_crosstab_validation_witness:
  "\<not> df_empty null_df
   \<and> map_of null_df ''gender'' = Some [None, None, None, None]
   \<and> isna_all [None, None, None, None :: string label option]
   \<and> create_crosstab null_df ''gender'' ''satisfaction'' True True =
       Inl (ValueError ''Variable contains all null values'')
   \<and> ''nonexistent'' \<notin> set (df_columns null_df)
   \<and> create_crosstab null_df ''nonexistent'' ''gender'' True True =
       Inl (ValueError (row_not_found ''nonexistent''))
   \<and> sublist ''nonexistent'' (row_not_found ''nonexistent'')"
proof -
  have e: "\<not> df_empty null_df" by (simp add: null_df_def df_empty_def)
  have m: "map_of null_df ''gender'' = Some [None, None, None, None]
         \<and> map_of null_df ''satisfaction'' = Some [Some (Cat ''High''), Some (Cat ''Medium''), Some (Cat ''Low''), Some (Cat ''High'')]"
    by (simp add: null_df_def)
  have n: "isna_all [None, None, None, None :: string label option]" by (simp add: isna_all_def)
  have a: "''nonexistent'' \<notin> set (df_columns null_df)" by (simp add: null_df_def df_columns_def)
  from create_crosstab_validation [OF e, of "''gender''" "''satisfaction''" True True] m n
  have 1: "create_crosstab null_df ''gender'' ''satisfaction'' True True =
       Inl (ValueError ''Variable contains all null values'')"
    by simp
  from create_crosstab_validation [OF e, of "''nonexistent''" "''gender''" True True] a
  have 2: "create_crosstab null_df ''nonexistent'' ''gender'' True True =
       Inl (ValueError (row_not_found ''nonexistent''))
     \<and> sublist ''nonexistent'' (row_not_found ''nonexistent'')"
    by simp
  show ?thesis using e m n a 1 2 by simp
qed

text \<open>
  The claim as the specification states it fails on the all-missing frame of the test
  suite: the error raised for the variable \<^verbatim>\<open>gender\<close> does not contain that name.
\<close>

theorem create_crosstab_all_null_message_counterexample:
  "create_crosstab null_df ''gender'' ''satisfaction'' True True =
     Inl (ValueError ''Variable contains all null values'')
   \<and> \<not> sublist ''gender'' ''Variable contains all null values''"
  by (simp add: null_df_crosstab) code_simp

subsection \<open>Banner tables\<close>

lemma banner_cols_flat:
  "banner_cols key f r cols acc = banner_flat key f (map (Pair r) cols) acc"
  by (induction cols arbitrary: acc) (auto split: sum.splits)

lemma banner_flat_append:
  "banner_flat key f (ps @ qs) acc =
     (case banner_flat key f ps acc of Inl e \<Rightarrow> Inl e | Inr acc' \<Rightarrow> banner_flat key f qs acc')"
  by (induction ps arbitrary: acc) (auto split: sum.splits)

lemma banner_rows_flat:
  "banner_rows key f rows cols acc = banner_flat key f (List.product rows cols) acc"
  by (induction rows arbitrary: acc) (auto simp: banner_cols_flat banner_flat_append split: sum.splits)

lemma update_fresh: "k \<notin> fst ` set al \<Longrightarrow> AList.update k v al = al @ [(k, v)]"
  by (induction al) auto

lemma banner_flat_success:
  assumes "\<forall>(r, c) \<in> set ps. \<exists>x. f r c = Inr x"
    and "distinct (map (\<lambda>(r, c). key r c) ps)"
    and "(\<lambda>(r, c). key r c) ` set ps \<inter> fst ` set acc = {}"
  shows "banner_flat key f ps acc = Inr (acc @ map (\<lambda>(r, c). (key r c, projr (f r c))) ps)"
  using assms
proof (induction ps arbitrary: acc)
  case Nil
  then show ?case by simp
next
  case (Cons p ps)
  obtain r c where p: "p = (r, c)" by (cases p)
  from Cons.prems(1) obtain x where x: "f r c = Inr x" by (auto simp: p)
  have fresh: "key r c \<notin> fst ` set acc" using Cons.prems(3) by (auto simp: p)
  have "banner_flat key f ps (acc @ [(key r c, x)])
      = Inr ((acc @ [(key r c, x)]) @ map (\<lambda>(r, c). (key r c, projr (f r c))) ps)"
  proof (rule Cons.IH)
    show "\<forall>(r, c)\<in>set ps. \<exists>x. f r c = Inr x" using Cons.prems(1) by auto
    show "distinct (map (\<lambda>(r, c). key r c) ps)" using Cons.prems(2) by simp
    show "(\<lambda>(r, c). key r c) ` set ps \<inter> fst ` set (acc @ [(key r c, x)]) = {}"
      using Cons.prems(2,3) by (auto simp: p)
  qed
  then show ?case by (simp add: p x update_fresh[OF fresh])
qed

lemma banner_flat_failure:
  assumes "\<forall>(r, c) \<in> set pre. \<exists>x. f r c = Inr x" and "f r c = Inl e"
  shows "banner_flat key f (pre @ (r, c) # post) acc = Inl e"
  using assms
proof (induction pre arbitrary: acc)
  case Nil
  then show ?case by simp
next
  case (Cons p pre)
  obtain r' c' where p: "p = (r', c')" by (cases p)
  from Cons.prems(1) obtain x where "f r' c' = Inr x" by (auto simp: p)
  moreover have "banner_flat key f (pre @ (r, c) # post) (AList.update (key r' c') x acc) = Inl e"
    using Cons.prems by (intro Cons.IH) auto
  ultimately show ?case by (simp add: p)
qed

lemma sample_data_crosstab_gender:
  "create_crosstab sample_data ''gender'' ''gender'' False False =
     Inr \<lparr>table = \<lparr>index = [Cat ''Female'', Cat ''Male'', All_label],
                       columns = [Cat ''Female'', Cat ''Male'', All_label],
                       cells = [[2, 0, 2], [0, 2, 2], [2, 2, 4]]\<rparr>,
          row_percentages = None, column_percentages = None, total_percentages = None,
          statistics = None\<rparr>"
  by (simp add: create_crosstab_def sample_data_def df_empty_def isna_all_def pd_crosstab_margins_def engine_percentages_def
      categories_def cell_count_def row_margin_def col_margin_def Let_def)

lemma sample_data_crosstab_missing:
  "create_crosstab sample_data ''gender'' ''age_group'' False False =
     Inl (ValueError (col_not_found ''age_group''))"
  by (simp add: create_crosstab_def sample_data_def df_empty_def)

text \<open>
  Claim C10. When the per-pair call fails for a pair and succeeds for every pair before it
  in row-major order, \<^verbatim>\<open>create_banner_table\<close> raises that pair's error: the result is
  the error alone, with none of the results computed before it.
\<close>

theorem create_banner_table_first_failure:
  assumes "List.product row_vars col_vars = pre @ (row_var, col_var) # post"
    and "\<forall>(r, c) \<in> set pre. \<exists>x. create_crosstab data r c include_percentages include_statistics = Inr x"
    and "create_crosstab data row_var col_var include_percentages include_statistics = Inl e"
  shows "create_banner_table data row_vars col_vars include_percentages include_statistics = Inl e"
  unfolding create_banner_table_def banner_rows_flat assms(1)
  by (rule banner_flat_failure[OF assms(2) assms(3)])

theorem create_banner_table_first_failure_witness:
  "List.product [''gender''] [''satisfaction'', ''age_group'', ''gender''] =
     [(''gender'', ''satisfaction'')] @ (''gender'', ''age_group'') # [(''gender'', ''gender'')]
   \<and> create_crosstab sample_data ''gender'' ''age_group'' False False =
       Inl (ValueError (col_not_found ''age_group''))
   \<and> create_banner_table sample_data [''gender''] [''satisfaction'', ''age_group'', ''gender'']
       False False = Inl (ValueError (col_not_found ''age_group''))"
proof -
  have p: "List.product [''gender''] [''satisfaction'', ''age_group'', ''gender''] =
     [(''gender'', ''satisfaction'')] @ (''gender'', ''age_group'') # [(''gender'', ''gender'')]"
    by simp
  have s: "\<forall>(r, c) \<in> set [(''gender'', ''satisfaction'')].
             \<exists>x. create_crosstab sample_data r c False False = Inr x"
    by (simp add: sample_data_crosstab)
  from create_banner_table_first_failure [OF p s sample_data_crosstab_missing]
  show ?thesis using p sample_data_crosstab_missing by simp
qed

text \<open>
  Claim C7, as the code has it. When every pair succeeds and the keys of the pairs are
  pairwise distinct, \<^verbatim>\<open>create_banner_table\<close> returns one entry per pair of the cross
  product, in row-major order, each under the key \<^verbatim>\<open><row_variable> x <column_variable>\<close>
  and holding the result of \<^verbatim>\<open>create_crosstab\<close> for that pair.
\<close>

theorem create_banner_table_keys:
  assumes "\<forall>(r, c) \<in> set (List.product row_vars col_vars).
             \<exists>x. create_crosstab data r c include_percentages include_statistics = Inr x"
    and "distinct (map (\<lambda>(r, c). r @ '' x '' @ c) (List.product row_vars col_vars))"
  shows "create_banner_table data row_vars col_vars include_percentages include_statistics =
           Inr (map (\<lambda>(r, c). (r @ '' x '' @ c,
                       projr (create_crosstab data r c include_percentages include_statistics)))
                  (List.product row_vars col_vars))"
  unfolding create_banner_table_def banner_rows_flat
  using banner_flat_success[of "List.product row_vars col_vars"
      "\<lambda>r c. create_crosstab data r c include_percentages include_statistics"
      create_banner_table_key "[]"] assms
  by (simp add: create_banner_table_key_def)

theorem create_banner_table_keys_witness:
  "create_banner_table sample_data [''gender''] [''satisfaction'', ''gender''] False False =
     Inr [(''gender x satisfaction'',
           \<lparr>table = \<lparr>index = [Cat ''Female'', Cat ''Male'', All_label],
                       columns = [Cat ''High'', Cat ''Low'', Cat ''Medium'', All_label],
                       cells = [[1, 0, 1, 2], [1, 1, 0, 2], [2, 1, 1, 4]]\<rparr>,
            row_percentages = None, column_percentages = None, total_percentages = None,
            statistics = None\<rparr>),
          (''gender x gender'',
           \<lparr>table = \<lparr>index = [Cat ''Female'', Cat ''Male'', All_label],
                       columns = [Cat ''Female'', Cat ''Male'', All_label],
                       cells = [[2, 0, 2], [0, 2, 2], [2, 2, 4]]\<rparr>,
            row_percentages = None, column_percentages = None, total_percentages = None,
            statistics = None\<rparr>)]"
proof -
  have s: "\<forall>(r, c) \<in> set (List.product [''gender''] [''satisfaction'', ''gender'']).
             \<exists>x. create_crosstab sample_data r c False False = Inr x"
    by (simp add: sample_data_crosstab sample_data_crosstab_gender)
  have d: "distinct (map (\<lambda>(r, c). r @ '' x '' @ c)
             (List.product [''gender''] [''satisfaction'', ''gender'']))"
    by simp
  from create_banner_table_keys [OF s d] show ?thesis
    by (simp add: sample_data_crosstab sample_data_crosstab_gender)
qed

text \<open>
  The per-pair operation of the other entry point never returns: the dictionary it hands
  to \<^verbatim>\<open>CrosstabResult\<close> as \<^verbatim>\<open>statistics\<close> has at most four of the six fields of
  \<^verbatim>\<open>CrosstabStatistics\<close>.
\<close>

lemma CrosstabGenerator_calculate_statistics_keys:
  "CrosstabGenerator_calculate_statistics t = Inr d \<Longrightarrow> map_of d ''residuals'' = None"
  by (auto simp: CrosstabGenerator_calculate_statistics_def Let_def split: sum.splits)

lemma generator_statistics_refused:
  assumes "CrosstabGenerator_calculate_statistics t = Inr d"
  shows "CrosstabResult_of_dict t rp cp tp d ex rs =
           Inl (PydanticValidationError ''statistics: Field required'')"
proof -
  from assms have "map_of d ''residuals'' = None"
    by (rule CrosstabGenerator_calculate_statistics_keys)
  then have "CrosstabStatistics_of_dict d = Inl (PydanticValidationError ''statistics: Field required'')"
    by (simp add: CrosstabStatistics_of_dict_def CrosstabStatistics_fields_def)
  then show ?thesis by (simp add: CrosstabResult_of_dict_def)
qed

lemma empty_statistics_refused:
  "CrosstabResult_of_dict t rp cp tp [] ex rs =
     Inl (PydanticValidationError ''statistics: Field required'')"
  by (simp add: CrosstabResult_of_dict_def CrosstabStatistics_of_dict_def
      CrosstabStatistics_fields_def)

lemma generate_raises: "\<exists>e. generate data row_var col_var ip st = Inl e"
  unfolding generate_def
  by (auto simp: generator_statistics_refused empty_statistics_refused
      split: option.splits sum.splits)

lemma sample_data_generate:
  "generate sample_data ''gender'' ''satisfaction'' True True =
     Inl (PydanticValidationError ''statistics: Field required'')"
  by (simp add: generate_def sample_data_def pd_crosstab_margins_def
      categories_def cell_count_def row_margin_def col_margin_def Let_def
      CrosstabGenerator_calculate_statistics_def CrosstabGenerator_calculate_expected_values_def
      chi2_contingency_def iloc_no_margins_def shape_def
      expected_freq_def grand_total_def row_totals_def col_totals_def
      CrosstabResult_of_dict_def CrosstabStatistics_of_dict_def CrosstabStatistics_fields_def)

text \<open>
  The claim as the specification states it fails for the second banner entry point:
  \<^verbatim>\<open>BannerTableGenerator.generate_banner\<close> builds the key \<^verbatim>\<open>gender_by_satisfaction\<close>, not
  \<^verbatim>\<open>gender x satisfaction\<close>, and on the sample data it stores no result at all.
\<close>

theorem generate_banner_key_counterexample:
  "generate_banner_key ''gender'' ''satisfaction'' = ''gender_by_satisfaction''
   \<and> generate_banner_key ''gender'' ''satisfaction'' \<noteq> ''gender x satisfaction''
   \<and> generate_banner sample_data [''gender''] [''satisfaction''] True True =
       Inl (PydanticValidationError ''statistics: Field required'')"
  by (simp add: generate_banner_key_def generate_banner_def sample_data_generate)

subsection \<open>Expected frequencies\<close>

lemma np_sum_Fin: "np_sum (map Fin xs) = Fin (sum_list xs)"
  by (induction xs) auto





lemma expected_freq_formula:
  "grand_total t \<noteq> 0 \<Longrightarrow> expected_freq t = spec_expected_frequencies t"
  by (simp add: expected_freq_def spec_expected_frequencies_def)





lemma row_margin_positive: "r \<in> set (categories (map fst ps)) \<Longrightarrow> 0 < row_margin ps r"
  by (auto simp: categories_set row_margin_def filter_empty_conv)

lemma col_margin_positive: "c \<in> set (categories (map snd ps)) \<Longrightarrow> 0 < col_margin ps c"
  by (auto simp: categories_set col_margin_def filter_empty_conv)

lemma cell_count_nonneg: "0 \<le> cell_count ps r c"
  by (simp add: cell_count_def)

lemma count_table_facts:
  assumes "ps \<noteq> []"
    and "b = \<lparr>index = ix, columns = cols,
              cells = map (\<lambda>r. map (cell_count ps r) (categories (map snd ps)))
                        (categories (map fst ps))\<rparr>"
    and "length ix = length (categories (map fst ps))"
    and "length cols = length (categories (map snd ps))"
  shows "row_totals b = map (row_margin ps) (categories (map fst ps))"
    and "col_totals b = map (col_margin ps) (categories (map snd ps))"
    and "grand_total b = real (length ps)"
    and "\<forall>row \<in> set (cells b). length row = length (columns b)"
    and "\<not> list_ex (list_ex (\<lambda>x. x < 0)) (cells b)"
    and "\<forall>r \<in> set (row_totals b). 0 < r"
    and "\<forall>c \<in> set (col_totals b). 0 < c"
    and "0 < fst (shape b)" and "0 < snd (shape b)"
    and "length (cells b) = fst (shape b)"
proof -
  show r: "row_totals b = map (row_margin ps) (categories (map fst ps))"
    by (simp add: assms(2) row_totals_def comp_def row_margin_split)
  show c: "col_totals b = map (col_margin ps) (categories (map snd ps))"
    by (simp add: assms(2) col_totals_body[OF assms(4)] col_margin_split)
  show "grand_total b = real (length ps)"
    by (simp add: assms(2) grand_total_def comp_def row_margin_split[symmetric] length_split)
  show "\<forall>row \<in> set (cells b). length row = length (columns b)"
    by (auto simp: assms(2) assms(4))
  show "\<not> list_ex (list_ex (\<lambda>x. x < 0)) (cells b)"
    by (auto simp: assms(2) list_ex_iff cell_count_def)
  show "\<forall>r \<in> set (row_totals b). 0 < r"
    unfolding r by (auto intro: row_margin_positive)
  show "\<forall>c \<in> set (col_totals b). 0 < c"
    unfolding c by (auto intro: col_margin_positive)
  from assms(1) obtain p qs where "ps = p # qs" by (cases ps) auto
  then have "set (categories (map fst ps)) \<noteq> {}" "set (categories (map snd ps)) \<noteq> {}"
    by (simp_all add: categories_set)
  then show "0 < fst (shape b)" "0 < snd (shape b)"
    by (simp_all add: shape_def assms)
  show "length (cells b) = fst (shape b)" by (simp add: assms shape_def)
qed


lemma chi2_contingency_Inr:
  assumes "chi2_contingency t = Inr (chi2, p, dof, expected)"
  shows "expected = expected_freq t"
    and "\<not> list_ex (list_ex (\<lambda>e. e = Fin 0)) (expected_freq t)"
  using assms
  by (auto simp: chi2_contingency_def Let_def split: if_splits)

lemma sum_list_concat_rows: "sum_list (concat xss) = sum_list (map sum_list xss)"
  for xss :: "real list list"
  by (induction xss) auto

lemma map_sum_id_Inr: "map_sum id Some x = Inr (Some s) \<longleftrightarrow> x = Inr s"
  by (cases x) auto

lemma create_crosstab_statistics:
  assumes "create_crosstab data row_var col_var ip st = Inr res" and "statistics res = Some s"
  shows "engine_statistics (table res) = Inr s"
  using assms
  by (auto simp: create_crosstab_def map_sum_id_Inr split: if_splits option.splits sum.splits)



lemma engine_statistics_empty:
  "engine_statistics \<lparr>index = [], columns = [], cells = []\<rparr> =
     Inl (ValueError ''No data; `observed` has size 0.'')"
  by (simp add: engine_statistics_def iloc_no_margins_def shape_def chi2_contingency_def)

lemma pd_crosstab_body:
  assumes "pd_crosstab_margins rs cs = Inr t"
    and "t \<noteq> \<lparr>index = [], columns = [], cells = []\<rparr>"
  obtains ps where "ps \<noteq> []"
    "iloc_no_margins t =
       \<lparr>index = map Cat (categories (map fst ps)), columns = map Cat (categories (map snd ps)),
        cells = map (\<lambda>r. map (cell_count ps r) (categories (map snd ps)))
                  (categories (map fst ps))\<rparr>"
  using assms(1)
proof (cases rule: pd_crosstab_margins_cases)
  case empty
  with assms(2) show ?thesis by simp
next
  case (table ps)
  from that[OF table(1) crosstab_margin_facts(6)[OF table]] show ?thesis .
qed





subsection \<open>Standardized residuals\<close>

lemma residual_cell_cases:
  "residual_cell ob ex =
     (if 0 < ex then Fin ((ob - ex) / sqrt ex)
      else if ex < 0 then NaN
      else if ob = 0 then NaN else if 0 < ob then PInf else NInf)"
  by (auto simp: residual_cell_def np_sub_def)

lemma spec_expected_positive:
  assumes "\<forall>r \<in> set (row_totals b). 0 < r" and "\<forall>c \<in> set (col_totals b). 0 < c"
    and "0 < grand_total b"
    and "erow \<in> set (spec_expected_frequencies b)" and "ex \<in> set erow"
  shows "\<exists>e. ex = Fin e \<and> 0 < e"
  using assms by (auto simp: spec_expected_frequencies_def)

lemma list_all_map2:
  assumes "\<And>x y. x \<in> set xs \<Longrightarrow> y \<in> set ys \<Longrightarrow> P (f x y)"
  shows "list_all P (map2 f xs ys)"
  using assms by (auto simp: list_all_iff dest: set_zip_leftD set_zip_rightD)

lemma engine_statistics_residuals_finite:
  assumes t: "pd_crosstab_margins rs cs = Inr t" and s: "engine_statistics t = Inr st"
  shows "list_all (list_all is_finite) (residuals st)"
proof (cases "fst (shape (iloc_no_margins t)) = 1 \<or> snd (shape (iloc_no_margins t)) = 1")
  case True
  with s have "residuals st = replicate (fst (shape (iloc_no_margins t)))
                  (replicate (snd (shape (iloc_no_margins t))) (Fin 0))"
    by (auto simp: engine_statistics_def Let_def)
  then show ?thesis by (simp add: list_all_iff is_finite_def)
next
  case False
  have "t \<noteq> \<lparr>index = [], columns = [], cells = []\<rparr>"
    using s by (auto simp: engine_statistics_empty)
  with t obtain ps where ne: "ps \<noteq> []"
    and body: "iloc_no_margins t =
       \<lparr>index = map Cat (categories (map fst ps)), columns = map Cat (categories (map snd ps)),
        cells = map (\<lambda>r. map (cell_count ps r) (categories (map snd ps)))
                  (categories (map fst ps))\<rparr>"
    by (rule pd_crosstab_body)
  note f = count_table_facts[OF ne body, simplified]
  have T: "0 < grand_total (iloc_no_margins t)" using ne f(3) by simp
  from False s obtain chi2 p dof expected
    where c: "chi2_contingency (iloc_no_margins t) = Inr (chi2, p, dof, expected)"
      and r: "residuals st = map2 (map2 (\<lambda>ob ex. np_div (np_sub (Fin ob) ex) (np_sqrt ex)))
                            (cells (iloc_no_margins t)) expected"
    by (auto simp: engine_statistics_def Let_def split: sum.splits)
  have e: "expected = spec_expected_frequencies (iloc_no_margins t)"
    using chi2_contingency_Inr(1)[OF c] expected_freq_formula[of "iloc_no_margins t"] T by simp
  show ?thesis
    unfolding r e
  proof (intro list_all_map2)
    fix row erow ob ex
    assume "erow \<in> set (spec_expected_frequencies (iloc_no_margins t))" "ex \<in> set erow"
    from spec_expected_positive[OF f(6,7) T this] obtain v where "ex = Fin v" "0 < v" by blast
    then show "is_finite (np_div (np_sub (Fin ob) ex) (np_sqrt ex))"
      by (simp add: np_sub_def is_finite_def)
  qed
qed

text \<open>
  Claim C3, as the code has it. The residual of a cell is \<open>(observed - expected) /
  sqrt expected\<close> with no guard: it is that finite number where the expected cell is
  positive; where the expected cell is zero it is an infinity or \<open>NaN\<close>, never 0.0 (and
  \<open>NaN\<close> where it is negative). \<^verbatim>\<open>_calculate_residuals\<close> computes it cell by cell on
  frames with the same labels. In a result of \<^verbatim>\<open>create_crosstab\<close> every residual is
  finite, because \<^verbatim>\<open>chi2_contingency\<close> has refused a table with a zero expected cell
  before the residuals are computed.
\<close>

theorem residuals_without_guard:
  "residual_cell ob ex =
     (if 0 < ex then Fin ((ob - ex) / sqrt ex)
      else if ex < 0 then NaN
      else if ob = 0 then NaN else if 0 < ob then PInf else NInf)
   \<and> (index observed = index expected \<and> columns observed = columns expected \<longrightarrow>
        CrosstabEngine_calculate_residuals observed expected =
          Inr \<lparr>index = index observed, columns = columns observed,
               cells = map2 (map2 residual_cell) (cells observed) (cells expected)\<rparr>)
   \<and> (\<forall>res s. create_crosstab data row_var col_var include_percentages include_statistics = Inr res
              \<and> statistics res = Some s \<longrightarrow>
            list_all (list_all is_finite) (residuals s))"
proof (intro conjI allI impI)
  show "residual_cell ob ex =
     (if 0 < ex then Fin ((ob - ex) / sqrt ex)
      else if ex < 0 then NaN
      else if ob = 0 then NaN else if 0 < ob then PInf else NInf)"
    by (rule residual_cell_cases)
next
  assume "index observed = index expected \<and> columns observed = columns expected"
  then show "CrosstabEngine_calculate_residuals observed expected =
          Inr \<lparr>index = index observed, columns = columns observed,
               cells = map2 (map2 residual_cell) (cells observed) (cells expected)\<rparr>"
    by (simp add: CrosstabEngine_calculate_residuals_def)
next
  fix res s
  assume a: "create_crosstab data row_var col_var include_percentages include_statistics = Inr res
              \<and> statistics res = Some s"
  from create_crosstab_table[of data row_var col_var include_percentages include_statistics res] a
  obtain rs cs where t: "pd_crosstab_margins rs cs = Inr (table res)" by blast
  from create_crosstab_statistics[of data row_var col_var include_percentages include_statistics res s] a
  have "engine_statistics (table res) = Inr s" by simp
  from engine_statistics_residuals_finite[OF t this]
  show "list_all (list_all is_finite) (residuals s)" .
qed

theorem residuals_without_guard_witness:
  "CrosstabEngine_calculate_residuals
     \<lparr>index = [0::nat], columns = [0, 1], cells = [[3, 0]]\<rparr>
     \<lparr>index = [0], columns = [0, 1], cells = [[4, 0]]\<rparr> =
   Inr \<lparr>index = [0], columns = [0, 1], cells = [[Fin (- 1 / 2), NaN]]\<rparr>
   \<and> list_all (list_all is_finite)
       [[Fin 0, Fin (- (1 / (2 * sqrt (1 / 2)))), Fin (1 / (2 * sqrt (1 / 2)))],
        [Fin 0, Fin (1 / (2 * sqrt (1 / 2))), Fin (- (1 / (2 * sqrt (1 / 2))))]]"
proof -
  note w = residuals_without_guard
    [where observed = "\<lparr>index = [0::nat], columns = [0, 1], cells = [[3, 0]]\<rparr>"
       and expected = "\<lparr>index = [0::nat], columns = [0, 1], cells = [[4, 0]]\<rparr>"
       and data = sample_data and row_var = "''gender''" and col_var = "''satisfaction''"
       and include_percentages = False and include_statistics = True]
  have a: "residual_cell 3 4 = Fin (- 1 / 2)"
    using w [where ob = 3 and ex = 4] by simp
  have b: "residual_cell 0 0 = NaN"
    using w [where ob = 0 and ex = 0] by simp
  have c: "CrosstabEngine_calculate_residuals
     \<lparr>index = [0::nat], columns = [0, 1], cells = [[3, 0]]\<rparr>
     \<lparr>index = [0], columns = [0, 1], cells = [[4, 0]]\<rparr> =
   Inr \<lparr>index = [0], columns = [0, 1], cells = [[residual_cell 3 4, residual_cell 0 0]]\<rparr>"
    using w [where ob = 0 and ex = 0] by simp
  have d: "list_all (list_all is_finite)
       [[Fin 0, Fin (- (1 / (2 * sqrt (1 / 2)))), Fin (1 / (2 * sqrt (1 / 2)))],
        [Fin 0, Fin (1 / (2 * sqrt (1 / 2))), Fin (- (1 / (2 * sqrt (1 / 2))))]]"
    using w [where ob = 0 and ex = 0] sample_data_crosstab_statistics by simp
  show ?thesis using a b c d by simp
qed

text \<open>
  The claim as the specification states it fails on an observed cell 1 with expected
  cell 0: the residual is infinite, not 0.0.
\<close>

theorem residuals_zero_expected_counterexample:
  "CrosstabEngine_calculate_residuals
     \<lparr>index = [0::nat], columns = [0], cells = [[1]]\<rparr>
     \<lparr>index = [0], columns = [0], cells = [[0]]\<rparr> =
   Inr \<lparr>index = [0], columns = [0], cells = [[PInf]]\<rparr>"
  by (simp add: CrosstabEngine_calculate_residuals_def residual_cell_def np_sub_def)

subsection \<open>Row percentages\<close>

text \<open>
  In the row-percentage view of \<^verbatim>\<open>create_crosstab\<close> the non-margin cells of every
  non-margin row add up to 100 (a row of a table that \<^verbatim>\<open>pd.crosstab\<close> built has a positive
  total). Arithmetic is exact.
\<close>

lemma percentage_line_row:
  assumes "length counts = length ccats"
  shows "percentage_line (map Cat ccats @ [All_label]) (counts @ [m]) =
           (if 0 < sum_list counts
            then map (\<lambda>x. Fin (x / sum_list counts * 100)) counts @ [Fin 100]
            else map (\<lambda>_. Fin 0) (counts @ [m]))"
proof -
  have z: "zip (map Cat ccats @ [All_label]) (counts @ [m])
         = zip (map Cat ccats) counts @ [(All_label, m)]"
    using assms by simp
  have f: "filter (\<lambda>(l, x). l \<noteq> All_label) (zip (map Cat ccats) counts) = zip (map Cat ccats) counts"
    by (auto simp: filter_id_conv dest: set_zip_leftD)
  have s: "map snd (zip (map Cat ccats) counts) = counts"
    using assms by simp
  have m: "map (\<lambda>(l, x). if l \<noteq> All_label then Fin (x / T * 100) else Fin 100) (zip (map Cat ccats) counts)
         = map (\<lambda>x. Fin (x / T * 100)) counts" for T :: real
  proof -
    have "map (\<lambda>(l, x). if l \<noteq> All_label then Fin (x / T * 100) else Fin 100) (zip (map Cat ccats) counts)
        = map (\<lambda>p. Fin (snd p / T * 100)) (zip (map Cat ccats) counts)"
      by (rule map_cong) (auto dest: set_zip_leftD)
    also have "\<dots> = map (\<lambda>x. Fin (x / T * 100)) (map snd (zip (map Cat ccats) counts))"
      by (simp add: comp_def)
    finally show ?thesis by (simp only: s)
  qed
  show ?thesis
    unfolding percentage_line_def z by (simp add: f s m Let_def)
qed

lemma percent_sum: "T \<noteq> 0 \<Longrightarrow> sum_list (map (\<lambda>x. x / T * 100) xs) = sum_list xs / T * 100"
  for T :: real
  by (induction xs) (auto simp: algebra_simps add_divide_distrib)

lemma engine_row_percentages_sum:
  assumes "create_crosstab data row_var col_var True st = Inr res"
  shows "\<exists>rp. row_percentages res = Some rp
            \<and> length (cells rp) = length (cells (table res))
            \<and> (\<forall>row \<in> set (butlast (cells rp)). np_sum (butlast row) = Fin 100)"
proof -
  from create_crosstab_table[OF assms] obtain rs cs
    where c: "pd_crosstab_margins rs cs = Inr (table res)" by blast
  from assms have ix: "All_label \<in> set (index (table res))"
    and rp: "row_percentages res = Some (engine_row_percentages (table res))"
    by (auto simp: create_crosstab_def engine_percentages_def
        split: if_splits option.splits sum.splits)
  from c show ?thesis
  proof (cases rule: pd_crosstab_margins_cases)
    case empty
    with ix show ?thesis by simp
  next
    case (table ps)
    define rcats where "rcats = categories (map fst ps)"
    define ccats where "ccats = categories (map snd ps)"
    have t: "table res = \<lparr>index = map Cat rcats @ [All_label],
                columns = map Cat ccats @ [All_label],
                cells = map (\<lambda>r. map (cell_count ps r) ccats @ [row_margin ps r]) rcats
                        @ [map (col_margin ps) ccats @ [real (length ps)]]\<rparr>"
      by (simp add: table(2) rcats_def ccats_def)
    have "np_sum (butlast row) = Fin 100"
      if "row \<in> set (butlast (cells (engine_row_percentages (table res))))" for row
    proof -
      from that obtain r where r: "r \<in> set rcats"
        and row: "row = percentage_line (map Cat ccats @ [All_label])
                          (map (cell_count ps r) ccats @ [row_margin ps r])"
        by (auto simp: engine_row_percentages_def t butlast_append)
      have pos: "0 < sum_list (map (cell_count ps r) ccats)"
        using row_margin_positive[of r ps] r
        by (simp add: rcats_def row_margin_split ccats_def)
      have "row = map (\<lambda>x. Fin (x / sum_list (map (cell_count ps r) ccats) * 100))
                    (map (cell_count ps r) ccats) @ [Fin 100]"
        unfolding row using pos by (subst percentage_line_row) simp_all
      then have "butlast row = map Fin (map (\<lambda>x. x / sum_list (map (cell_count ps r) ccats) * 100)
                    (map (cell_count ps r) ccats))"
        by (simp add: comp_def)
      then show ?thesis using pos by (simp only: np_sum_Fin percent_sum) simp
    qed
    then show ?thesis using rp by (simp add: engine_row_percentages_def)
  qed
qed

lemma sample_data_percentages:
  "create_crosstab sample_data ''gender'' ''satisfaction'' True False =
     Inr \<lparr>table = \<lparr>index = [Cat ''Female'', Cat ''Male'', All_label],
                       columns = [Cat ''High'', Cat ''Low'', Cat ''Medium'', All_label],
                       cells = [[1, 0, 1, 2], [1, 1, 0, 2], [2, 1, 1, 4]]\<rparr>,
          row_percentages =
            Some \<lparr>index = [Cat ''Female'', Cat ''Male'', All_label],
                  columns = [Cat ''High'', Cat ''Low'', Cat ''Medium'', All_label],
                  cells = [[Fin 50, Fin 0, Fin 50, Fin 100], [Fin 50, Fin 50, Fin 0, Fin 100],
                           [Fin 50, Fin 25, Fin 25, Fin 100]]\<rparr>,
          column_percentages =
            Some \<lparr>index = [Cat ''Female'', Cat ''Male'', All_label],
                  columns = [Cat ''High'', Cat ''Low'', Cat ''Medium'', All_label],
                  cells = [[Fin 50, Fin 0, Fin 100, Fin 50], [Fin 50, Fin 100, Fin 0, Fin 50],
                           [Fin 100, Fin 100, Fin 100, Fin 100]]\<rparr>,
          total_percentages =
            Some \<lparr>index = [Cat ''Female'', Cat ''Male'', All_label],
                  columns = [Cat ''High'', Cat ''Low'', Cat ''Medium'', All_label],
                  cells = [[Fin 25, Fin 0, Fin 25, Fin 50], [Fin 25, Fin 25, Fin 0, Fin 50],
                           [Fin 50, Fin 25, Fin 25, Fin 100]]\<rparr>,
          statistics = None\<rparr>"
  by (simp add: create_crosstab_def sample_data_def df_empty_def isna_all_def pd_crosstab_margins_def engine_percentages_def
      categories_def cell_count_def row_margin_def col_margin_def Let_def
      engine_row_percentages_def percentage_line_def engine_column_percentages_def
      engine_total_percentages_def grand_total_def iloc_no_margins_def)

text \<open>
  Claim C1 fails on the generator path. On the table of \<^verbatim>\<open>sample_data\<close>,
  \<^verbatim>\<open>CrosstabGenerator._calculate_row_percentages\<close> divides every cell by the sum of its
  row with the \<^verbatim>\<open>'All'\<close> cell counted in, so the non-margin cells of each non-margin row
  add up to 50, not 100. The cells are 25, 0 and 50, which binary floating point
  represents exactly.
\<close>

theorem generator_row_percentages_sample:
  "pd_crosstab_margins
     [Some (Cat ''Male''), Some (Cat ''Female''), Some (Cat ''Male''), Some (Cat ''Female'')]
     [Some (Cat ''High''), Some (Cat ''Medium''), Some (Cat ''Low''), Some (Cat ''High'')] =
     Inr \<lparr>index = [Cat ''Female'', Cat ''Male'', All_label],
          columns = [Cat ''High'', Cat ''Low'', Cat ''Medium'', All_label],
          cells = [[1, 0, 1, 2], [1, 1, 0, 2], [2, 1, 1, 4]]\<rparr>
   \<and> cells (CrosstabGenerator_calculate_row_percentages
        \<lparr>index = [Cat ''Female'', Cat ''Male'', All_label],
         columns = [Cat ''High'', Cat ''Low'', Cat ''Medium'', All_label],
         cells = [[1, 0, 1, 2], [1, 1, 0, 2], [2, 1, 1, 4]]\<rparr>) =
       [[Fin 25, Fin 0, Fin 25, Fin 50], [Fin 25, Fin 25, Fin 0, Fin 50],
        [Fin 25, Fin (25 / 2), Fin (25 / 2), Fin 50]]
   \<and> map (\<lambda>row. np_sum (butlast row))
        (butlast (cells (CrosstabGenerator_calculate_row_percentages
          \<lparr>index = [Cat ''Female'', Cat ''Male'', All_label],
           columns = [Cat ''High'', Cat ''Low'', Cat ''Medium'', All_label],
           cells = [[1, 0, 1, 2], [1, 1, 0, 2], [2, 1, 1, 4]]\<rparr>))) = [Fin 50, Fin 50]"
  by (simp add: pd_crosstab_margins_def categories_def cell_count_def row_margin_def
      col_margin_def Let_def CrosstabGenerator_calculate_row_percentages_def)

subsection \<open>Statistical tests\<close>

lemma pd_crosstab_facts:
  assumes "complete_pairs rs cs \<noteq> []"
  shows "\<not> list_ex (list_ex (\<lambda>x. x < 0)) (cells (pd_crosstab rs cs))"
    and "\<not> list_ex (\<lambda>s. s = 0) (col_totals (pd_crosstab rs cs))"
    and "\<not> list_ex (\<lambda>s. s = 0) (row_totals (pd_crosstab rs cs))"
    and "fst (shape (pd_crosstab rs cs)) * snd (shape (pd_crosstab rs cs)) \<noteq> 0"
proof -
  have b: "pd_crosstab rs cs =
      \<lparr>index = categories (map fst (complete_pairs rs cs)),
       columns = categories (map snd (complete_pairs rs cs)),
       cells = map (\<lambda>r. map (cell_count (complete_pairs rs cs) r)
                            (categories (map snd (complete_pairs rs cs))))
                 (categories (map fst (complete_pairs rs cs)))\<rparr>"
    by (simp add: pd_crosstab_def Let_def)
  note f = count_table_facts[OF assms b refl refl]
  show "\<not> list_ex (list_ex (\<lambda>x. x < 0)) (cells (pd_crosstab rs cs))" by (rule f(5))
  show "\<not> list_ex (\<lambda>s. s = 0) (col_totals (pd_crosstab rs cs))"
    using f(7) by (auto simp: list_ex_iff)
  show "\<not> list_ex (\<lambda>s. s = 0) (row_totals (pd_crosstab rs cs))"
    using f(6) by (auto simp: list_ex_iff)
  show "fst (shape (pd_crosstab rs cs)) * snd (shape (pd_crosstab rs cs)) \<noteq> 0"
    using f(8,9) by simp
qed

text \<open>
  Claim C5, as the code has it. The Fisher exact operation has no check of the shape of
  its own: it hands the cross-classification of the two variables to
  \<^verbatim>\<open>scipy.stats.fisher_exact\<close> and returns what that answers, with no degrees of freedom
  and no effect size. When both variables are columns of the data and some row has both
  values, it succeeds: on a 2 by 2 table with the odds ratio as the statistic and the exact
  p-value, on a table of any other shape with the statistic and the p-value that the
  library computes for such a table.
\<close>

theorem perform_statistical_test_fisher_exact:
  assumes "map_of data var1 = Some col1" and "map_of data var2 = Some col2"
    and "complete_pairs col1 col2 \<noteq> []"
  shows "(shape (pd_crosstab col1 col2) = (2, 2) \<longrightarrow>
           perform_statistical_test data var1 var2 (Member FISHER_EXACT) =
             Inr \<lparr>test_type = Member FISHER_EXACT,
                  statistic =
                    Value (if 0 < cells (pd_crosstab col1 col2) ! 1 ! 0
                              \<and> 0 < cells (pd_crosstab col1 col2) ! 0 ! 1
                           then Fin (cells (pd_crosstab col1 col2) ! 0 ! 0
                                     * cells (pd_crosstab col1 col2) ! 1 ! 1 /
                                     (cells (pd_crosstab col1 col2) ! 1 ! 0
                                      * cells (pd_crosstab col1 col2) ! 0 ! 1))
                           else PInf),
                  result_p_value =
                    Scipy ''fisher_exact.pvalue'' (map (map Fin) (cells (pd_crosstab col1 col2))),
                  result_degrees_of_freedom = None, effect_size = None\<rparr>)
       \<and> (shape (pd_crosstab col1 col2) \<noteq> (2, 2) \<longrightarrow>
           perform_statistical_test data var1 var2 (Member FISHER_EXACT) =
             Inr \<lparr>test_type = Member FISHER_EXACT,
                  statistic =
                    Scipy ''fisher_exact.statistic''
                      (map (map Fin) (cells (pd_crosstab col1 col2))),
                  result_p_value =
                    Scipy ''fisher_exact.pvalue'' (map (map Fin) (cells (pd_crosstab col1 col2))),
                  result_degrees_of_freedom = None, effect_size = None\<rparr>)"
  using assms(1,2) pd_crosstab_facts[OF assms(3)]
  by (simp add: perform_statistical_test_def fisher_exact_def Let_def)

lemma fisher_df_crosstab:
  "pd_crosstab [Some 0, Some 0, Some 1, Some 1] [Some 1, Some 0, Some 1, Some (0::real)] =
     \<lparr>index = [0, 1], columns = [0, 1], cells = [[1, 1], [1, 1]]\<rparr>"
  by (simp add: pd_crosstab_def categories_def cell_count_def Let_def)

lemma two_groups_df_crosstab:
  "pd_crosstab [Some 0, Some 0, Some 0, Some 1, Some 1, Some 1]
     [Some 1, Some 2, Some 3, Some 2, Some 4, Some (6::real)] =
     \<lparr>index = [0, 1], columns = [1, 2, 3, 4, 6],
      cells = [[1, 1, 1, 0, 0], [0, 1, 0, 1, 1]]\<rparr>"
  by (simp add: pd_crosstab_def categories_def cell_count_def Let_def)

theorem perform_statistical_test_fisher_exact_witness:
  "map_of fisher_df ''group'' = Some [Some 0, Some 0, Some 1, Some 1]
   \<and> map_of fisher_df ''outcome'' = Some [Some 1, Some 0, Some 1, Some 0]
   \<and> complete_pairs [Some 0, Some 0, Some 1, Some 1] [Some 1, Some 0, Some 1, Some (0::real)] \<noteq> []
   \<and> shape (pd_crosstab [Some 0, Some 0, Some 1, Some 1]
              [Some 1, Some 0, Some 1, Some (0::real)]) = (2, 2)
   \<and> perform_statistical_test fisher_df ''group'' ''outcome'' (Member FISHER_EXACT) =
       Inr \<lparr>test_type = Member FISHER_EXACT, statistic = Value (Fin 1),
            result_p_value = Scipy ''fisher_exact.pvalue'' [[Fin 1, Fin 1], [Fin 1, Fin 1]],
            result_degrees_of_freedom = None, effect_size = None\<rparr>
   \<and> map_of two_groups_df ''value'' = Some [Some 1, Some 2, Some 3, Some 2, Some 4, Some 6]
   \<and> map_of two_groups_df ''group'' = Some [Some 0, Some 0, Some 0, Some 1, Some 1, Some 1]
   \<and> complete_pairs [Some 1, Some 2, Some 3, Some 2, Some 4, Some 6]
        [Some 0, Some 0, Some 0, Some 1, Some 1, Some (1::real)] \<noteq> []
   \<and> shape (pd_crosstab [Some 1, Some 2, Some 3, Some 2, Some 4, Some 6]
              [Some 0, Some 0, Some 0, Some 1, Some 1, Some (1::real)]) \<noteq> (2, 2)
   \<and> perform_statistical_test two_groups_df ''value'' ''group'' (Member FISHER_EXACT) =
       Inr \<lparr>test_type = Member FISHER_EXACT,
            statistic = Scipy ''fisher_exact.statistic''
              [[Fin 1, Fin 0], [Fin 1, Fin 1], [Fin 1, Fin 0], [Fin 0, Fin 1], [Fin 0, Fin 1]],
            result_p_value = Scipy ''fisher_exact.pvalue''
              [[Fin 1, Fin 0], [Fin 1, Fin 1], [Fin 1, Fin 0], [Fin 0, Fin 1], [Fin 0, Fin 1]],
            result_degrees_of_freedom = None, effect_size = None\<rparr>"
proof -
  have a: "map_of fisher_df ''group'' = Some [Some 0, Some 0, Some 1, Some 1]"
    and b: "map_of fisher_df ''outcome'' = Some [Some 1, Some 0, Some 1, Some 0]"
    by (simp_all add: fisher_df_def)
  have c: "map_of two_groups_df ''group'' = Some [Some 0, Some 0, Some 0, Some 1, Some 1, Some 1]"
    and d: "map_of two_groups_df ''value'' = Some [Some 1, Some 2, Some 3, Some 2, Some 4, Some 6]"
    by (simp_all add: two_groups_df_def)
  have p: "complete_pairs [Some 0, Some 0, Some 1, Some 1]
             [Some 1, Some 0, Some 1, Some (0::real)] \<noteq> []"
    and q: "complete_pairs [Some 1, Some 2, Some 3, Some 2, Some 4, Some 6]
              [Some 0, Some 0, Some 0, Some 1, Some 1, Some (1::real)] \<noteq> []"
    by simp_all
  have t: "pd_crosstab [Some 1, Some 2, Some 3, Some 2, Some 4, Some 6]
              [Some 0, Some 0, Some 0, Some 1, Some 1, Some (1::real)] =
           \<lparr>index = [1, 2, 3, 4, 6], columns = [0, 1],
            cells = [[1, 0], [1, 1], [1, 0], [0, 1], [0, 1]]\<rparr>"
    by (simp add: pd_crosstab_def categories_def cell_count_def Let_def)
  from perform_statistical_test_fisher_exact [OF a b p]
  have 1: "perform_statistical_test fisher_df ''group'' ''outcome'' (Member FISHER_EXACT) =
     Inr \<lparr>test_type = Member FISHER_EXACT, statistic = Value (Fin 1),
          result_p_value = Scipy ''fisher_exact.pvalue'' [[Fin 1, Fin 1], [Fin 1, Fin 1]],
          result_degrees_of_freedom = None, effect_size = None\<rparr>"
    by (simp add: fisher_df_crosstab shape_def)
  from perform_statistical_test_fisher_exact [OF d c q]
  have 2: "perform_statistical_test two_groups_df ''value'' ''group'' (Member FISHER_EXACT) =
       Inr \<lparr>test_type = Member FISHER_EXACT,
            statistic = Scipy ''fisher_exact.statistic''
              [[Fin 1, Fin 0], [Fin 1, Fin 1], [Fin 1, Fin 0], [Fin 0, Fin 1], [Fin 0, Fin 1]],
            result_p_value = Scipy ''fisher_exact.pvalue''
              [[Fin 1, Fin 0], [Fin 1, Fin 1], [Fin 1, Fin 0], [Fin 0, Fin 1], [Fin 0, Fin 1]],
            result_degrees_of_freedom = None, effect_size = None\<rparr>"
    by (simp add: t shape_def)
  show ?thesis using a b c d p q 1 2 by (simp add: fisher_df_crosstab t shape_def)
qed

text \<open>
  The claim as the specification states it fails on the frame with two groups of three
  measurements: the cross-classification of \<^verbatim>\<open>group\<close> and \<^verbatim>\<open>value\<close> has 2 rows and 5
  columns, and the operation returns a result.
\<close>

theorem perform_statistical_test_fisher_exact_counterexample:
  "shape (pd_crosstab [Some 0, Some 0, Some 0, Some 1, Some 1, Some 1]
            [Some 1, Some 2, Some 3, Some 2, Some 4, Some (6::real)]) = (2, 5)
   \<and> perform_statistical_test two_groups_df ''group'' ''value'' (Member FISHER_EXACT) =
       Inr \<lparr>test_type = Member FISHER_EXACT,
            statistic = Scipy ''fisher_exact.statistic''
              [[Fin 1, Fin 1, Fin 1, Fin 0, Fin 0], [Fin 0, Fin 1, Fin 0, Fin 1, Fin 1]],
            result_p_value = Scipy ''fisher_exact.pvalue''
              [[Fin 1, Fin 1, Fin 1, Fin 0, Fin 0], [Fin 0, Fin 1, Fin 0, Fin 1, Fin 1]],
            result_degrees_of_freedom = None, effect_size = None\<rparr>"
  by (simp add: perform_statistical_test_def two_groups_df_def two_groups_df_crosstab
      fisher_exact_def shape_def)

lemma Series_mean_real: "present col \<noteq> [] \<Longrightarrow> Series_mean col = Fin (mean (present col))"
  by (simp add: Series_mean_def mean_def)

lemma Series_var_real: "2 \<le> length (present col) \<Longrightarrow> Series_var col = Fin (variance (present col))"
  by (simp add: Series_var_def variance_def mean_def Let_def)

lemma length2E:
  assumes "length xs = 2"
  obtains a b where "xs = [a, b]"
  using assms by (cases xs; cases "tl xs") auto

text \<open>
  The t-test operation, when the row variable is a column of the data. It raises its
  \<^verbatim>\<open>ValueError\<close> whenever the values of the row variable, as \<^verbatim>\<open>Series.unique()\<close> lists
  them (the missing marker, when it occurs, being one of them), are not two in number.
  When it succeeds, the effect size is \<open>(mean\<^sub>1 - mean\<^sub>2) / sqrt ((var\<^sub>1 + var\<^sub>2) / 2)\<close> over
  the values of the column variable in the two groups, in numpy's arithmetic; it is that
  real number when each group has two values or more and the variances are not both zero.
\<close>

lemma t_test_two_listed_values:
  assumes "map_of data var1 = Some col1"
  shows "(length (unique col1) \<noteq> 2 \<longrightarrow>
           perform_statistical_test data var1 var2 (Member T_TEST) =
             Inl (ValueError ''T-test requires exactly 2 groups''))
       \<and> (\<forall>res. perform_statistical_test data var1 var2 (Member T_TEST) = Inr res \<longrightarrow>
            (\<exists>col2 g1 g2.
               map_of data var2 = Some col2 \<and> unique col1 = [g1, g2]
               \<and> effect_size res =
                   Some (np_div
                     (np_sub (Series_mean (select_rows col1 g1 col2))
                        (Series_mean (select_rows col1 g2 col2)))
                     (np_sqrt (np_div
                        (np_add (Series_var (select_rows col1 g1 col2))
                           (Series_var (select_rows col1 g2 col2)))
                        (Fin 2))))
               \<and> (2 \<le> length (present (select_rows col1 g1 col2))
                    \<and> 2 \<le> length (present (select_rows col1 g2 col2))
                    \<and> 0 < variance (present (select_rows col1 g1 col2))
                          + variance (present (select_rows col1 g2 col2)) \<longrightarrow>
                  effect_size res =
                    Some (Fin (mean_difference_effect (present (select_rows col1 g1 col2))
                                 (present (select_rows col1 g2 col2)))))))"
proof (intro conjI impI allI)
  assume "length (unique col1) \<noteq> 2"
  then show "perform_statistical_test data var1 var2 (Member T_TEST) =
             Inl (ValueError ''T-test requires exactly 2 groups'')"
    using assms by (simp add: perform_statistical_test_def Let_def)
next
  fix res
  assume r: "perform_statistical_test data var1 var2 (Member T_TEST) = Inr res"
  then have l: "length (unique col1) = 2"
    using assms by (auto simp: perform_statistical_test_def Let_def split: if_splits)
  then obtain g1 g2 where g: "unique col1 = [g1, g2]" by (rule length2E)
  from r obtain col2 where c: "map_of data var2 = Some col2"
    using assms l by (auto simp: perform_statistical_test_def Let_def split: option.splits)
  let ?a = "select_rows col1 g1 col2" and ?b = "select_rows col1 g2 col2"
  have e: "effect_size res =
       Some (np_div (np_sub (Series_mean ?a) (Series_mean ?b))
               (np_sqrt (np_div (np_add (Series_var ?a) (Series_var ?b)) (Fin 2))))"
    using r assms c g by (auto simp: perform_statistical_test_def Let_def)
  have f: "effect_size res = Some (Fin (mean_difference_effect (present ?a) (present ?b)))"
    if "2 \<le> length (present ?a) \<and> 2 \<le> length (present ?b)
        \<and> 0 < variance (present ?a) + variance (present ?b)"
  proof -
    from that have ne: "present ?a \<noteq> []" "present ?b \<noteq> []" by auto
    from that have s: "sqrt ((variance (present ?a) + variance (present ?b)) / 2) \<noteq> 0" by simp
    show ?thesis
      using that s
      by (simp add: e Series_mean_real[OF ne(1)] Series_mean_real[OF ne(2)] Series_var_real
          np_sub_def mean_difference_effect_def)
  qed
  show "\<exists>col2 g1 g2.
               map_of data var2 = Some col2 \<and> unique col1 = [g1, g2]
               \<and> effect_size res =
                   Some (np_div
                     (np_sub (Series_mean (select_rows col1 g1 col2))
                        (Series_mean (select_rows col1 g2 col2)))
                     (np_sqrt (np_div
                        (np_add (Series_var (select_rows col1 g1 col2))
                           (Series_var (select_rows col1 g2 col2)))
                        (Fin 2))))
               \<and> (2 \<le> length (present (select_rows col1 g1 col2))
                    \<and> 2 \<le> length (present (select_rows col1 g2 col2))
                    \<and> 0 < variance (present (select_rows col1 g1 col2))
                          + variance (present (select_rows col1 g2 col2)) \<longrightarrow>
                  effect_size res =
                    Some (Fin (mean_difference_effect (present (select_rows col1 g1 col2))
                                 (present (select_rows col1 g2 col2)))))"
    using c g e f by blast
qed

lemma two_groups_t_test:
  "perform_statistical_test two_groups_df ''group'' ''value'' (Member T_TEST) =
     Inr \<lparr>test_type = Member T_TEST,
          statistic = Scipy ''ttest_ind.statistic'' [[Fin 1, Fin 2, Fin 3], [Fin 2, Fin 4, Fin 6]],
          result_p_value = Scipy ''ttest_ind.pvalue'' [[Fin 1, Fin 2, Fin 3], [Fin 2, Fin 4, Fin 6]],
          result_degrees_of_freedom = None,
          effect_size = Some (Fin (- (2 / sqrt (5 / 2))))\<rparr>"
  by (simp add: perform_statistical_test_def two_groups_df_def unique_def select_rows_def Let_def
      Series_mean_def Series_var_def present_def np_sub_def to_np_def)

lemma two_groups_effect: "mean_difference_effect [1, 2, 3] [2, 4, 6] = - (2 / sqrt (5 / 2))"
  by (simp add: mean_difference_effect_def variance_def mean_def power2_eq_square)

lemma one_value_t_test:
  "perform_statistical_test two_groups_df ''value'' ''group'' (Member T_TEST) =
     Inl (ValueError ''T-test requires exactly 2 groups'')"
  by (simp add: perform_statistical_test_def two_groups_df_def unique_def Let_def)

text \<open>
  Claim C6 fails on a frame whose row variable has one value and is missing in two rows.
  \<^verbatim>\<open>Series.unique()\<close> lists the missing marker as a second value, so the check for two
  groups passes although the data have one group; no row is selected for the missing
  marker, and the operation returns a result over an empty second group, with the effect
  size \<open>NaN\<close>, where the claim has it fail.
\<close>

theorem perform_statistical_test_t_test_missing_group:
  "map_of missing_group_df ''group'' = Some [Some 0, Some 0, None, None]
   \<and> unique [Some 0, Some 0, None, None :: real option] = [Some 0, None]
   \<and> select_rows [Some 0, Some 0, None, None :: real option] None
        [Some 1, Some 2, Some 3, Some (5::real)] = []
   \<and> perform_statistical_test missing_group_df ''group'' ''value'' (Member T_TEST) =
       Inr \<lparr>test_type = Member T_TEST,
            statistic = Scipy ''ttest_ind.statistic'' [[Fin 1, Fin 2], []],
            result_p_value = Scipy ''ttest_ind.pvalue'' [[Fin 1, Fin 2], []],
            result_degrees_of_freedom = None,
            effect_size = Some NaN\<rparr>"
  by (simp add: perform_statistical_test_def missing_group_df_def unique_def select_rows_def
      Let_def Series_mean_def Series_var_def present_def np_sub_def to_np_def)

end
